theory Spec2Isabelle
  imports Complex_Main "HOL-Library.AList" "HOL-Library.Sublist"
begin

section \<open>Python values and exceptions\<close>

text \<open>
  The program is \<^verbatim>\<open>privatbank_exchange.py\<close>. Its functions are embedded as HOL
  functions; every \<^verbatim>\<open>raise\<close> is a value \<open>Inl e\<close> of a sum type and every normal return a
  value \<open>Inr v\<close>.

  A Python \<^verbatim>\<open>str\<close> is a \<open>string\<close>: a list of characters whose codes are the code points
  below 256; text with other code points is not covered. A decoded JSON document is a
  \<open>pyval\<close>; a JSON object is an association list with string keys, read with
  \<open>map_of\<close>. JSON numbers are only passed through by the program, never computed with.

  The command line front end (\<^verbatim>\<open>parse_args\<close>, \<^verbatim>\<open>main\<close>), what \<^verbatim>\<open>print\<close> writes and the
  records that the \<^verbatim>\<open>logging\<close> module writes on its own are left out.
\<close>

datatype pyval =
    PNone
  | PBool bool
  | PInt int
  | PFloat rat
  | PStr string
  | PList "pyval list"
  | PDict "(string \<times> pyval) list"

text \<open>
  Exceptions raised by the libraries the program calls (\<^verbatim>\<open>aiohttp\<close>, \<^verbatim>\<open>json\<close>,
  \<^verbatim>\<open>asyncio\<close>). \<open>OtherError\<close> stands for any exception class that derives neither from
  \<^verbatim>\<open>aiohttp.ClientError\<close> nor from \<^verbatim>\<open>ValueError\<close>.
\<close>

datatype lib_error =
    ClientConnectionError
  | ClientPayloadError
  | ClientResponseError
  | ContentTypeError
  | TimeoutError
  | JSONDecodeError
  | UnicodeDecodeError
  | OtherError

datatype exn =
    Lib lib_error
  | ValueError string
  | IndexError
  | KeyError
  | AttributeError
  | TypeError

text \<open>The two \<^verbatim>\<open>except\<close> clauses of the program match by class, subclasses included.\<close>

fun is_ClientError :: "exn \<Rightarrow> bool" where
  "is_ClientError (Lib ClientConnectionError) = True"
| "is_ClientError (Lib ClientPayloadError) = True"
| "is_ClientError (Lib ClientResponseError) = True"
| "is_ClientError (Lib ContentTypeError) = True"
| "is_ClientError _ = False"

fun is_ValueError :: "exn \<Rightarrow> bool" where
  "is_ValueError (ValueError _) = True"
| "is_ValueError (Lib JSONDecodeError) = True"
| "is_ValueError (Lib UnicodeDecodeError) = True"
| "is_ValueError _ = False"

text \<open>\<^verbatim>\<open>d.get(key, default)\<close>: a method of \<^verbatim>\<open>dict\<close> only.\<close>

fun py_get :: "pyval \<Rightarrow> string \<Rightarrow> pyval \<Rightarrow> exn + pyval" where
  "py_get (PDict kvs) k d = Inr (case map_of kvs k of Some v \<Rightarrow> v | None \<Rightarrow> d)"
| "py_get _ k d = Inl AttributeError"

text \<open>\<^verbatim>\<open>d[key]\<close> with a string key.\<close>

fun py_getitem :: "pyval \<Rightarrow> string \<Rightarrow> exn + pyval" where
  "py_getitem (PDict kvs) k = (case map_of kvs k of Some v \<Rightarrow> Inr v | None \<Rightarrow> Inl KeyError)"
| "py_getitem _ k = Inl TypeError"

text \<open>
  \<^verbatim>\<open>for rate in v\<close>: a list yields its elements, a dict its keys, a string its
  characters; the other values are not iterable.
\<close>

fun py_iter :: "pyval \<Rightarrow> exn + pyval list" where
  "py_iter (PList xs) = Inr xs"
| "py_iter (PDict kvs) = Inr (map (\<lambda>kv. PStr (fst kv)) kvs)"
| "py_iter (PStr s) = Inr (map (\<lambda>c. PStr [c]) s)"
| "py_iter _ = Inl TypeError"

text \<open>\<^verbatim>\<open>x in currencies\<close>, for a list of strings: equality with one of its elements.\<close>

definition py_in :: "pyval \<Rightarrow> string list \<Rightarrow> bool" where
  "py_in x currencies = (x \<in> set (map PStr currencies))"

section \<open>PrivatBankCurrencyRatesFetcher\<close>

text \<open>
  The dictionaries the program builds keep their insertion order, and an assignment to a
  key already present keeps the key's place: \<open>AList.update\<close>.
  A quote is \<^verbatim>\<open>{"sale": ..., "purchase": ...}\<close>, \<open>rates\<close> maps a currency to its quote,
  and the result for one date is \<^verbatim>\<open>{}\<close> or \<^verbatim>\<open>{date: rates}\<close>.
\<close>

type_synonym quote = "(string \<times> pyval) list"
type_synonym rates = "(pyval \<times> quote) list"
type_synonym daily = "(string \<times> rates) list"

text \<open>One iteration of the loop of \<^verbatim>\<open>_parse_response\<close>.\<close>

definition parse_step :: "string list \<Rightarrow> rates \<Rightarrow> pyval \<Rightarrow> exn + rates" where
  "parse_step currencies rates rate =
     (case py_get rate ''currency'' PNone of
        Inl e \<Rightarrow> Inl e
      | Inr c \<Rightarrow>
          if py_in c currencies then
            (case py_get rate ''saleRate'' PNone of
               Inl e \<Rightarrow> Inl e
             | Inr s \<Rightarrow>
                 (case py_get rate ''purchaseRate'' PNone of
                    Inl e \<Rightarrow> Inl e
                  | Inr p \<Rightarrow>
                      (case py_getitem rate ''currency'' of
                         Inl e \<Rightarrow> Inl e
                       | Inr k \<Rightarrow> Inr (AList.update k [(''sale'', s), (''purchase'', p)] rates))))
          else Inr rates)"

fun parse_loop :: "string list \<Rightarrow> pyval list \<Rightarrow> rates \<Rightarrow> exn + rates" where
  "parse_loop currencies [] rates = Inr rates"
| "parse_loop currencies (rate # rest) rates =
     (case parse_step currencies rates rate of
        Inl e \<Rightarrow> Inl e
      | Inr rates' \<Rightarrow> parse_loop currencies rest rates')"

definition parse_response :: "pyval \<Rightarrow> string \<Rightarrow> string list \<Rightarrow> exn + daily" where
  "parse_response data date currencies =
     (case py_get data ''exchangeRate'' (PList []) of
        Inl e \<Rightarrow> Inl e
      | Inr v \<Rightarrow>
          (case py_iter v of
             Inl e \<Rightarrow> Inl e
           | Inr items \<Rightarrow>
               (case parse_loop currencies items [] of
                  Inl e \<Rightarrow> Inl e
                | Inr rates \<Rightarrow> Inr (if rates \<noteq> [] then [(date, rates)] else []))))"

text \<open>
  What the network gives back. \<open>status\<close> is the HTTP status of the response and
  \<open>json\<close> the outcome of \<^verbatim>\<open>await response.json()\<close>: the decoded document, or the exception
  that call raises (\<open>ContentTypeError\<close> for a body that is not announced as JSON,
  \<open>JSONDecodeError\<close> for a body that is not JSON, \<open>ClientPayloadError\<close> for a body
  that cannot be read).
\<close>

record response =
  status :: nat
  json :: "lib_error + pyval"

text \<open>
  The world around one command. A call of \<^verbatim>\<open>get_rates_for_days\<close> reads the clock once
  for each date and sends one request for each date; \<open>now_day w i\<close> is the calendar day,
  counted in days since 1970-01-01, on which the \<open>i\<close>-th reading of \<^verbatim>\<open>datetime.now()\<close>
  falls, \<open>http w i date\<close> the outcome of the \<open>i\<close>-th request (\<^verbatim>\<open>session.get\<close> with the
  parameter \<^verbatim>\<open>date\<close>): a response, or the exception raised instead, and \<open>finish w i\<close>
  the moment the \<open>i\<close>-th request is over. \<open>timestamp\<close> is the text of
  \<^verbatim>\<open>datetime.now()\<close> when the audit line is written.
\<close>

record world =
  now_day :: "nat \<Rightarrow> nat"
  http :: "nat \<Rightarrow> string \<Rightarrow> lib_error + response"
  finish :: "nat \<Rightarrow> nat"
  timestamp :: string

text \<open>
  The body of the \<^verbatim>\<open>try\<close> block of \<^verbatim>\<open>fetch_rates\<close>: \<^verbatim>\<open>raise_for_status\<close> raises
  \<open>ClientResponseError\<close> for a status of 400 or more.
\<close>

definition fetch_body :: "world \<Rightarrow> nat \<Rightarrow> string \<Rightarrow> string list \<Rightarrow> exn + daily" where
  "fetch_body w i date currencies =
     (case http w i date of
        Inl e \<Rightarrow> Inl (Lib e)
      | Inr resp \<Rightarrow>
          if 400 \<le> status resp then Inl (Lib ClientResponseError)
          else
            (case json resp of
               Inl e \<Rightarrow> Inl (Lib e)
             | Inr data \<Rightarrow> parse_response data date currencies))"

text \<open>
  \<^verbatim>\<open>except aiohttp.ClientError\<close>: the handler prints a message and returns \<^verbatim>\<open>{}\<close>;
  every other exception leaves \<^verbatim>\<open>fetch_rates\<close>.
\<close>

definition fetch_rates :: "world \<Rightarrow> nat \<Rightarrow> string \<Rightarrow> string list \<Rightarrow> exn + daily" where
  "fetch_rates w i date currencies =
     (case fetch_body w i date currencies of
        Inl e \<Rightarrow> if is_ClientError e then Inr [] else Inl e
      | Inr r \<Rightarrow> Inr r)"

section \<open>Dates\<close>

text \<open>
  \<^verbatim>\<open>str\<close> of an integer, in decimal.
\<close>

definition digit_char :: "nat \<Rightarrow> char" where
  "digit_char d = ''0123456789'' ! d"

fun str_nat :: "nat \<Rightarrow> string" where
  "str_nat n = (if n < 10 then [digit_char n] else str_nat (n div 10) @ [digit_char (n mod 10)])"

definition py_str :: "int \<Rightarrow> string" where
  "py_str n = (if n < 0 then CHR ''-'' # str_nat (nat (- n)) else str_nat (nat n))"

text \<open>
  A calendar date is its proleptic Gregorian ordinal (day 1 is 0001-01-01), as in
  \<^verbatim>\<open>datetime\<close>; subtracting \<^verbatim>\<open>timedelta(days=i)\<close> subtracts \<open>i\<close> from the ordinal and
  leaves the time of day alone. \<open>ord2ymd\<close> is the conversion \<^verbatim>\<open>datetime\<close> uses to get
  year, month and day from the ordinal.
\<close>

definition days_in_month :: "int \<Rightarrow> int" where
  "days_in_month m = [-1, 31, 28, 31, 30, 31, 30, 31, 31, 30, 31, 30, 31] ! nat m"

definition days_before_month :: "int \<Rightarrow> int" where
  "days_before_month m = [-1, 0, 31, 59, 90, 120, 151, 181, 212, 243, 273, 304, 334] ! nat m"

definition ord2ymd :: "int \<Rightarrow> int \<times> int \<times> int" where
  "ord2ymd ordinal =
     (let n0 = ordinal - 1;
          n400 = n0 div 146097; r400 = n0 mod 146097;
          n100 = r400 div 36524; r100 = r400 mod 36524;
          n4 = r100 div 1461; r4 = r100 mod 1461;
          n1 = r4 div 365; n = r4 mod 365;
          year = n400 * 400 + 1 + n100 * 100 + n4 * 4 + n1
      in if n1 = 4 \<or> n100 = 4 then (year - 1, 12, 31)
         else
           (let leapyear = (n1 = 3 \<and> (n4 \<noteq> 24 \<or> n100 = 3));
                month = (n + 50) div 32;
                preceding = days_before_month month + (if month > 2 \<and> leapyear then 1 else 0)
            in if preceding > n then
                 (let month' = month - 1;
                      preceding' = preceding
                        - (days_in_month month' + (if month' = 2 \<and> leapyear then 1 else 0))
                  in (year, month', n - preceding' + 1))
               else (year, month, n - preceding + 1)))"

definition pad2 :: "int \<Rightarrow> string" where
  "pad2 n = (if n < 10 then CHR ''0'' # py_str n else py_str n)"

text \<open>\<^verbatim>\<open>strftime("%d.%m.%Y")\<close> of the date with the given ordinal.\<close>

definition strftime :: "int \<Rightarrow> string" where
  "strftime ordinal =
     (case ord2ymd ordinal of (y, m, d) \<Rightarrow> pad2 d @ ''.'' @ pad2 m @ ''.'' @ py_str y)"

text \<open>The ordinal of 1970-01-01, the day the system clock counts from.\<close>

definition epoch_ordinal :: int where
  "epoch_ordinal = 719163"

section \<open>CurrencyRatesService\<close>

text \<open>
  \<^verbatim>\<open>asyncio.gather\<close> runs the requests concurrently. When all return, the results come
  back in the order of the tasks. When some raise, the caller gets the exception of the
  task that failed first in time.
\<close>

fun results_of :: "(exn + 'a) list \<Rightarrow> 'a list" where
  "results_of [] = []"
| "results_of (Inr r # outs) = r # results_of outs"
| "results_of (Inl e # outs) = results_of outs"

definition failed :: "(exn + 'a) list \<Rightarrow> nat list" where
  "failed outs = filter (\<lambda>i. isl (outs ! i)) [0..<length outs]"

definition gather :: "(nat \<Rightarrow> nat) \<Rightarrow> (exn + 'a) list \<Rightarrow> exn + 'a list" where
  "gather fin outs =
     (if failed outs = [] then Inr (results_of outs)
      else Inl (projl (outs ! arg_min_list fin (failed outs))))"

text \<open>
  The service holds a fetcher; \<open>fetcher i date currencies\<close> is the outcome of the
  \<open>i\<close>-th call of its \<^verbatim>\<open>fetch_rates\<close>.
\<close>

definition window :: "world \<Rightarrow> int \<Rightarrow> string list" where
  "window w days =
     map (\<lambda>i. strftime (epoch_ordinal + int (now_day w i) - int i)) [0..<nat days]"

definition get_rates_for_days ::
  "(nat \<Rightarrow> string \<Rightarrow> string list \<Rightarrow> exn + daily) \<Rightarrow> world \<Rightarrow> int \<Rightarrow> string list
     \<Rightarrow> exn + daily list" where
  "get_rates_for_days fetcher w days currencies =
     (if days < 1 \<or> days > 10 then Inl (ValueError ''Number of days must be between 1 and 10'')
      else
        (let dates = window w days;
             tasks = map (\<lambda>i. fetcher i (dates ! i) currencies) [0..<length dates]
         in case gather (finish w) tasks of
              Inl e \<Rightarrow> Inl e
            | Inr results \<Rightarrow> Inr (filter (\<lambda>result. result \<noteq> []) results)))"

section \<open>The command server\<close>

text \<open>
  \<^verbatim>\<open>message.strip().split()\<close>: the whitespace of \<^verbatim>\<open>str\<close> among the code points below
  256, and the splitting of a string into its maximal runs of other characters.
\<close>

definition is_space :: "char \<Rightarrow> bool" where
  "is_space c = ((of_char c :: nat) \<in> {9, 10, 11, 12, 13, 28, 29, 30, 31, 32, 133, 160})"

definition py_strip :: "string \<Rightarrow> string" where
  "py_strip s = rev (dropWhile is_space (rev (dropWhile is_space s)))"

fun split_acc :: "string \<Rightarrow> string \<Rightarrow> string list" where
  "split_acc acc [] = (if acc = [] then [] else [acc])"
| "split_acc acc (c # cs) =
     (if is_space c then (if acc = [] then split_acc [] cs else acc # split_acc [] cs)
      else split_acc (acc @ [c]) cs)"

definition py_split :: "string \<Rightarrow> string list" where
  "py_split s = split_acc [] s"

text \<open>
  \<^verbatim>\<open>int(s)\<close> in base 10: blanks around the literal are dropped, then comes an optional
  sign and then digits, where single underscores may stand between two digits. A literal
  of more than 4300 digits is refused with a \<^verbatim>\<open>ValueError\<close> as well. The text of the
  exception stops before the quoted literal, which nothing reads.
\<close>

definition is_int_space :: "char \<Rightarrow> bool" where
  "is_int_space c = ((of_char c :: nat) \<in> {9, 10, 11, 12, 13, 32, 133, 160})"

definition is_digit :: "char \<Rightarrow> bool" where
  "is_digit c = (48 \<le> (of_char c :: nat) \<and> (of_char c :: nat) \<le> 57)"

definition digit_val :: "char \<Rightarrow> int" where
  "digit_val c = int (of_char c) - 48"

fun scan_digits :: "char \<Rightarrow> string \<Rightarrow> bool" where
  "scan_digits prev [] = (prev \<noteq> CHR ''_'')"
| "scan_digits prev (c # cs) =
     (if c = CHR ''_'' then prev \<noteq> CHR ''_'' \<and> scan_digits c cs
      else is_digit c \<and> scan_digits c cs)"

definition valid_digits :: "string \<Rightarrow> bool" where
  "valid_digits s = (case s of [] \<Rightarrow> False | c # _ \<Rightarrow> c \<noteq> CHR ''_'' \<and> scan_digits (CHR 0x00) s)"

definition int_of_digits :: "string \<Rightarrow> int" where
  "int_of_digits s = foldl (\<lambda>a c. 10 * a + digit_val c) 0 (filter is_digit s)"

definition int_max_str_digits :: nat where
  "int_max_str_digits = 4300"

definition py_int :: "string \<Rightarrow> exn + int" where
  "py_int s =
     (let t = rev (dropWhile is_int_space (rev (dropWhile is_int_space s)));
          signed = (case t of [] \<Rightarrow> False | c # _ \<Rightarrow> c = CHR ''-'' \<or> c = CHR ''+'');
          negative = (case t of [] \<Rightarrow> False | c # _ \<Rightarrow> c = CHR ''-'');
          body = (if signed then tl t else t)
      in if \<not> valid_digits body then Inl (ValueError ''invalid literal for int() with base 10'')
         else if length (filter is_digit body) > int_max_str_digits
         then Inl (ValueError ''Exceeds the limit (4300 digits) for integer string conversion'')
         else Inr (if negative then - int_of_digits body else int_of_digits body))"

text \<open>
  What a connection has done so far: the frames sent to the client, in order, and the
  texts the handler has appended to \<^verbatim>\<open>exchange_commands.log\<close>. A frame is a text;
  \<open>Json_dumps rates\<close> is the text \<^verbatim>\<open>json.dumps(rates, indent=2, ensure_ascii=False)\<close>,
  which starts with a bracket. Sending a frame and appending to the file always succeed
  here. Messages are text frames.
\<close>

datatype frame = Text string | Json_dumps "daily list"

record conn =
  sent :: "frame list"
  audit_log :: "string list"

definition send :: "conn \<Rightarrow> frame \<Rightarrow> conn" where
  "send c f = c\<lparr>sent := sent c @ [f]\<rparr>"

definition write_log :: "conn \<Rightarrow> string \<Rightarrow> conn" where
  "write_log c line = c\<lparr>audit_log := audit_log c @ [line]\<rparr>"

text \<open>
  The handler returns the connection and the exception that left it, if any. First the
  body of the \<^verbatim>\<open>try\<close> block for the token after \<^verbatim>\<open>exchange\<close>.
\<close>

definition try_body :: "world \<Rightarrow> string \<Rightarrow> conn \<Rightarrow> conn \<times> exn option" where
  "try_body w token c =
     (case py_int token of
        Inl e \<Rightarrow> (c, Some e)
      | Inr days \<Rightarrow>
          if 1 \<le> days \<and> days \<le> 10 then
            (case get_rates_for_days (fetch_rates w) w days [''EUR'', ''USD''] of
               Inl e \<Rightarrow> (c, Some e)
             | Inr rates \<Rightarrow>
                 (write_log (send c (Json_dumps rates))
                    (timestamp w @ '' - exchange '' @ py_str days @ '' days command executed''
                       @ [CHR 0x0A]),
                  None))
          else (send c (Text ''Error: The number of days must be between 1 and 10.''), None))"

text \<open>\<^verbatim>\<open>except ValueError\<close> around it.\<close>

definition try_except :: "world \<Rightarrow> string \<Rightarrow> conn \<Rightarrow> conn \<times> exn option" where
  "try_except w token c =
     (case try_body w token c of
        (c', None) \<Rightarrow> (c', None)
      | (c', Some e) \<Rightarrow>
          if is_ValueError e
          then (send c' (Text ''Error: Please provide a valid number of days.''), None)
          else (c', Some e))"

definition invalid_command :: string where
  "invalid_command =
     ''Invalid command. Use '' @ [CHR 0x27] @ ''exchange <days>'' @ [CHR 0x27] @ '' to get rates.''"

text \<open>The body of the loop over the messages of a connection.\<close>

definition exchange_command_step :: "world \<Rightarrow> string \<Rightarrow> conn \<Rightarrow> conn \<times> exn option" where
  "exchange_command_step w message c =
     (let command = py_split (py_strip message)
      in case command of
           [] \<Rightarrow> (c, Some IndexError)
         | first # _ \<Rightarrow>
             if first = ''exchange'' then
               (if length command = 1 then
                  (send c (Text ''Please provide the number of days (1-10) for the exchange rates.''),
                   None)
                else if length command = 2 then try_except w (command ! 1) c
                else (c, None))
             else (send c (Text invalid_command), None))"

text \<open>
  \<^verbatim>\<open>async for message in websocket\<close>: each message comes with the world at the time it is
  handled. The loop ends when the client closes the connection, or with the first
  exception that leaves the body.
\<close>

fun exchange_command :: "(world \<times> string) list \<Rightarrow> conn \<Rightarrow> conn \<times> exn option" where
  "exchange_command [] c = (c, None)"
| "exchange_command ((w, message) # rest) c =
     (case exchange_command_step w message c of
        (c', Some e) \<Rightarrow> (c', Some e)
      | (c', None) \<Rightarrow> exchange_command rest c')"

section \<open>Example worlds\<close>

text \<open>
  Concrete inputs for the evaluations further down. The clock of each world stands on
  2024-11-03, which is day 20030 after 1970-01-01.
\<close>

definition ok_response :: "pyval \<Rightarrow> response" where
  "ok_response data = \<lparr>status = 200, json = Inr data\<rparr>"

definition usd_rate :: pyval where
  "usd_rate = PDict [(''baseCurrency'', PStr ''UAH''), (''currency'', PStr ''USD''),
     (''saleRate'', PFloat (83 / 2)), (''purchaseRate'', PFloat (409 / 10))]"

definition gbp_rate :: pyval where
  "gbp_rate = PDict [(''baseCurrency'', PStr ''UAH''), (''currency'', PStr ''GBP''),
     (''saleRate'', PFloat 54), (''purchaseRate'', PFloat 53)]"

text \<open>An element of the array that has no \<^verbatim>\<open>saleRate\<close>.\<close>

definition usd_rate_no_sale :: pyval where
  "usd_rate_no_sale = PDict [(''baseCurrency'', PStr ''UAH''), (''currency'', PStr ''USD''),
     (''purchaseRate'', PFloat (409 / 10))]"

definition data_no_sale :: pyval where
  "data_no_sale = PDict [(''date'', PStr ''03.11.2024''), (''exchangeRate'', PList [usd_rate_no_sale])]"

text \<open>
  Every request is answered with the dollar and the pound, but for the second one
  (yesterday's), whose array is empty.
\<close>

definition world_gap :: world where
  "world_gap = \<lparr>
     now_day = (\<lambda>i. 20030),
     http = (\<lambda>i date.
       if i = 1 then Inr (ok_response (PDict [(''date'', PStr date), (''exchangeRate'', PList [])]))
       else Inr (ok_response (PDict [(''date'', PStr date), (''exchangeRate'', PList [gbp_rate, usd_rate])]))),
     finish = (\<lambda>i. i),
     timestamp = ''2024-11-03 12:00:00.250000''\<rparr>"

text \<open>Every request is answered with status 200 and a body that is not JSON.\<close>

definition world_bad_json :: world where
  "world_bad_json = \<lparr>
     now_day = (\<lambda>i. 20030),
     http = (\<lambda>i date. Inr \<lparr>status = 200, json = Inl JSONDecodeError\<rparr>),
     finish = (\<lambda>i. i),
     timestamp = ''2024-11-03 12:00:00.250000''\<rparr>"

text \<open>No request gets through; every request is answered with status 404; every request
  is answered with status 200 and a page of HTML.\<close>

definition world_refused :: world where
  "world_refused = \<lparr>
     now_day = (\<lambda>i. 20030),
     http = (\<lambda>i date. Inl ClientConnectionError),
     finish = (\<lambda>i. i),
     timestamp = ''2024-11-03 12:00:00.250000''\<rparr>"

definition world_404 :: world where
  "world_404 = \<lparr>
     now_day = (\<lambda>i. 20030),
     http = (\<lambda>i date. Inr \<lparr>status = 404, json = Inl ContentTypeError\<rparr>),
     finish = (\<lambda>i. i),
     timestamp = ''2024-11-03 12:00:00.250000''\<rparr>"

definition world_html :: world where
  "world_html = \<lparr>
     now_day = (\<lambda>i. 20030),
     http = (\<lambda>i date. Inr \<lparr>status = 200, json = Inl ContentTypeError\<rparr>),
     finish = (\<lambda>i. i),
     timestamp = ''2024-11-03 12:00:00.250000''\<rparr>"

text \<open>
  Midnight passes between the first and the second reading of the clock: the first
  falls on 2024-11-03, the later ones on 2024-11-04.
\<close>

definition world_midnight :: world where
  "world_midnight = \<lparr>
     now_day = (\<lambda>i. if i = 0 then 20030 else 20031),
     http = (\<lambda>i date.
       Inr (ok_response (PDict [(''date'', PStr date), (''exchangeRate'', PList [gbp_rate, usd_rate])]))),
     finish = (\<lambda>i. i),
     timestamp = ''2024-11-04 00:00:00.250000''\<rparr>"

text \<open>A decimal literal of 4301 digits.\<close>

definition long_literal :: string where
  "long_literal = replicate 4301 (CHR ''1'')"

text \<open>A connection that has sent and logged nothing yet.\<close>

definition conn0 :: conn where
  "conn0 = \<lparr>sent = [], audit_log = []\<rparr>"

section \<open>What the fetcher returns and raises\<close>

lemma update_mem:
  "(a, b) \<in> set (AList.update k v al) \<Longrightarrow> (a, b) = (k, v) \<or> (a, b) \<in> set al"
  by (induction al) (auto split: if_splits)

lemma update_nonempty: "AList.update k v al \<noteq> []"
  by (cases al) auto

lemma parse_step_Inl: "parse_step cs rates rate = Inl e \<Longrightarrow> e = AttributeError"
  by (cases rate) (auto simp: parse_step_def py_in_def split: option.splits if_splits sum.splits)

lemma parse_step_Inr:
  assumes "parse_step cs rates rate = Inr rates'" and "(k, q) \<in> set rates'"
  shows "(k, q) \<in> set rates \<or>
    (\<exists>kvs c. rate = PDict kvs \<and> map_of kvs ''currency'' = Some (PStr c) \<and> c \<in> set cs \<and>
       k = PStr c \<and>
       q = [(''sale'', case map_of kvs ''saleRate'' of None \<Rightarrow> PNone | Some v \<Rightarrow> v),
            (''purchase'', case map_of kvs ''purchaseRate'' of None \<Rightarrow> PNone | Some v \<Rightarrow> v)])"
  using assms
  by (cases rate) (auto simp: parse_step_def py_in_def split: option.splits if_splits sum.splits dest!: update_mem)

lemma parse_loop_Inl: "parse_loop cs items rates = Inl e \<Longrightarrow> e = AttributeError"
  by (induction items arbitrary: rates) (auto split: sum.splits dest: parse_step_Inl)

lemma parse_loop_Inr:
  assumes "parse_loop cs items rates = Inr rates'" and "(k, q) \<in> set rates'"
  shows "(k, q) \<in> set rates \<or>
    (\<exists>kvs c. PDict kvs \<in> set items \<and> map_of kvs ''currency'' = Some (PStr c) \<and> c \<in> set cs \<and>
       k = PStr c \<and>
       q = [(''sale'', case map_of kvs ''saleRate'' of None \<Rightarrow> PNone | Some v \<Rightarrow> v),
            (''purchase'', case map_of kvs ''purchaseRate'' of None \<Rightarrow> PNone | Some v \<Rightarrow> v)])"
  using assms
proof (induction items arbitrary: rates)
  case Nil
  then show ?case by simp
next
  case (Cons rate rest)
  from Cons.prems(1) obtain mid where step: "parse_step cs rates rate = Inr mid"
    and loop: "parse_loop cs rest mid = Inr rates'"
    by (auto split: sum.splits)
  from Cons.IH [OF loop Cons.prems(2)] show ?case
  proof
    assume "(k, q) \<in> set mid"
    from parse_step_Inr [OF step this] show ?thesis by auto
  next
    assume "\<exists>kvs c. PDict kvs \<in> set rest \<and> map_of kvs ''currency'' = Some (PStr c) \<and> c \<in> set cs \<and>
       k = PStr c \<and>
       q = [(''sale'', case map_of kvs ''saleRate'' of None \<Rightarrow> PNone | Some v \<Rightarrow> v),
            (''purchase'', case map_of kvs ''purchaseRate'' of None \<Rightarrow> PNone | Some v \<Rightarrow> v)]"
    then show ?thesis by auto
  qed
qed

lemma parse_response_Inl:
  "parse_response data date cs = Inl e \<Longrightarrow> e = AttributeError \<or> e = TypeError"
  by (cases data; cases "py_get data ''exchangeRate'' (PList [])")
     (auto simp: parse_response_def split: sum.splits pyval.splits dest: parse_loop_Inl elim: py_iter.elims)

lemma parse_response_shape:
  "parse_response data date cs = Inr d \<Longrightarrow> d = [] \<or> (\<exists>rates. d = [(date, rates)] \<and> rates \<noteq> [])"
  by (auto simp: parse_response_def split: sum.splits if_splits)

lemma parse_response_keys:
  assumes "parse_response data date cs = Inr d" and "(date', rates) \<in> set d" and "(k, q) \<in> set rates"
  shows "\<exists>c. c \<in> set cs \<and> k = PStr c"
  using assms
  by (auto simp: parse_response_def split: sum.splits if_splits dest!: parse_loop_Inr)

lemma fetch_body_Inl:
  "fetch_body w i date cs = Inl e \<Longrightarrow> (\<exists>le. e = Lib le) \<or> e = AttributeError \<or> e = TypeError"
  by (auto simp: fetch_body_def split: sum.splits if_splits dest: parse_response_Inl)

lemma fetch_rates_Inl:
  "fetch_rates w i date cs = Inl e \<Longrightarrow>
     \<not> is_ClientError e \<and> ((\<exists>le. e = Lib le) \<or> e = AttributeError \<or> e = TypeError)"
  by (auto simp: fetch_rates_def split: sum.splits if_splits dest: fetch_body_Inl)

lemma fetch_rates_shape:
  "fetch_rates w i date cs = Inr d \<Longrightarrow> d = [] \<or> (\<exists>rates. d = [(date, rates)] \<and> rates \<noteq> [])"
  by (auto simp: fetch_rates_def fetch_body_def split: sum.splits if_splits dest: parse_response_shape)

lemma fetch_rates_keys:
  assumes "fetch_rates w i date cs = Inr d" and "(date', rates) \<in> set d" and "(k, q) \<in> set rates"
  shows "\<exists>c. c \<in> set cs \<and> k = PStr c"
  using assms
  by (auto simp: fetch_rates_def fetch_body_def split: sum.splits if_splits dest: parse_response_keys)

section \<open>What the service returns and raises\<close>

lemma failed_empty: "(failed outs = []) = (\<forall>out\<in>set outs. \<not> isl out)"
proof
  assume "failed outs = []"
  then have a: "\<forall>i<length outs. \<not> isl (outs ! i)"
    by (auto simp: failed_def filter_empty_conv)
  show "\<forall>out\<in>set outs. \<not> isl out"
  proof
    fix out assume "out \<in> set outs"
    then obtain i where "i < length outs" "outs ! i = out"
      by (auto simp: in_set_conv_nth)
    with a show "\<not> isl out" by auto
  qed
next
  assume "\<forall>out\<in>set outs. \<not> isl out"
  then have "\<forall>i<length outs. \<not> isl (outs ! i)" by simp
  then show "failed outs = []"
    by (auto simp: failed_def filter_empty_conv)
qed

lemma results_of_all: "\<forall>out\<in>set outs. \<not> isl out \<Longrightarrow> map Inr (results_of outs) = outs"
  by (induction outs rule: results_of.induct) auto

lemma gather_Inr: "gather fin outs = Inr rs \<Longrightarrow> map Inr rs = outs"
  by (auto simp: gather_def failed_empty results_of_all split: if_splits)

lemma gather_Inl: "gather fin outs = Inl e \<Longrightarrow> \<exists>i<length outs. outs ! i = Inl e"
proof -
  assume g: "gather fin outs = Inl e"
  then have ne: "failed outs \<noteq> []" by (auto simp: gather_def split: if_splits)
  define j where "j = arg_min_list fin (failed outs)"
  from ne have "j \<in> set (failed outs)" unfolding j_def by (rule arg_min_list_in)
  then have j: "j < length outs" "isl (outs ! j)" by (auto simp: failed_def)
  from g ne have "e = projl (outs ! j)" by (auto simp: gather_def j_def)
  with j show ?thesis by (cases "outs ! j") auto
qed

lemma gather_total: "\<forall>out\<in>set outs. \<not> isl out \<Longrightarrow> gather fin outs = Inr (results_of outs)"
  by (simp add: gather_def failed_empty)

lemma length_window: "length (window w days) = nat days"
  by (simp add: window_def)

lemma get_rates_for_days_Inr:
  assumes "get_rates_for_days fetcher w days cs = Inr report"
  shows "1 \<le> days \<and> days \<le> 10 \<and>
    (\<exists>results. map Inr results = map (\<lambda>i. fetcher i (window w days ! i) cs) [0..<nat days] \<and>
       report = filter (\<lambda>result. result \<noteq> []) results)"
  using assms
  by (auto simp: get_rates_for_days_def Let_def length_window split: if_splits sum.splits dest!: gather_Inr)

lemma get_rates_for_days_Inl:
  assumes "get_rates_for_days fetcher w days cs = Inl e"
  shows "(days < 1 \<or> days > 10) \<and> e = ValueError ''Number of days must be between 1 and 10'' \<or>
    1 \<le> days \<and> days \<le> 10 \<and> (\<exists>i<nat days. fetcher i (window w days ! i) cs = Inl e)"
  using assms
  by (auto simp: get_rates_for_days_def Let_def length_window split: if_splits sum.splits dest!: gather_Inl)

lemma get_rates_for_days_returns:
  assumes "1 \<le> days" and "days \<le> 10"
    and "\<forall>i<nat days. \<not> isl (fetcher i (window w days ! i) cs)"
  shows "\<exists>report. get_rates_for_days fetcher w days cs = Inr report"
  using assms
  by (auto simp: get_rates_for_days_def Let_def length_window gather_total)

lemma results_as_map:
  assumes "map Inr results = map f [0..<n]"
  shows "results = map (\<lambda>i. projr (f i)) [0..<n]"
  using arg_cong [where f = "map projr", OF assms] by (simp add: comp_def)

section \<open>The report as a selection of the fetches\<close>

lemma report_offsets:
  assumes "get_rates_for_days fetcher w days cs = Inr report"
  shows "map Inr report =
    map (\<lambda>i. fetcher i (window w days ! i) cs)
      (filter (\<lambda>i. fetcher i (window w days ! i) cs \<noteq> Inr []) [0..<nat days])"
proof -
  define f where "f = (\<lambda>i. fetcher i (window w days ! i) cs)"
  from get_rates_for_days_Inr [OF assms] obtain results
    where res: "map Inr results = map f [0..<nat days]"
      and rep: "report = filter (\<lambda>result. result \<noteq> []) results"
    unfolding f_def by blast
  have results: "results = map (\<lambda>i. projr (f i)) [0..<nat days]"
    using res by (rule results_as_map)
  have f: "f i = Inr (projr (f i))" if "i < nat days" for i
  proof -
    have len: "length results = nat days"
      using map_eq_imp_length_eq [OF res] by simp
    have "f i = map f [0..<nat days] ! i" using that by simp
    also have "\<dots> = map Inr results ! i" by (simp only: res)
    also have "\<dots> = Inr (results ! i)" using len that by simp
    finally show ?thesis by simp
  qed
  have "map Inr report =
      map (\<lambda>i. Inr (projr (f i))) (filter (\<lambda>i. projr (f i) \<noteq> []) [0..<nat days])"
    unfolding rep results by (simp add: filter_map comp_def)
  also have "\<dots> = map f (filter (\<lambda>i. f i \<noteq> Inr []) [0..<nat days])"
  proof -
    have "filter (\<lambda>i. projr (f i) \<noteq> []) [0..<nat days] = filter (\<lambda>i. f i \<noteq> Inr []) [0..<nat days]"
    proof (rule filter_cong [OF refl])
      fix i assume "i \<in> set [0..<nat days]"
      then have "i < nat days" by simp
      from f [OF this] show "(projr (f i) \<noteq> []) = (f i \<noteq> Inr [])"
        by (metis sum.inject(2))
    qed
    moreover have "map (\<lambda>i. Inr (projr (f i))) (filter (\<lambda>i. f i \<noteq> Inr []) [0..<nat days]) =
        map f (filter (\<lambda>i. f i \<noteq> Inr []) [0..<nat days])"
    proof (rule map_cong [OF refl])
      fix i assume "i \<in> set (filter (\<lambda>i. f i \<noteq> Inr []) [0..<nat days])"
      then have "i < nat days" by simp
      from f [OF this] show "Inr (projr (f i)) = f i" by simp
    qed
    ultimately show ?thesis by simp
  qed
  finally show ?thesis unfolding f_def .
qed

lemma concat_singletons: "\<forall>x\<in>set xs. f x = [g x] \<Longrightarrow> concat (map f xs) = map g xs"
  by (induction xs) auto

lemma window_nth:
  "i < nat days \<Longrightarrow> window w days ! i = strftime (epoch_ordinal + int (now_day w i) - int i)"
  by (simp add: window_def)

lemma fetch_rates_not_ValueError: "fetch_rates w i date cs \<noteq> Inl (ValueError msg)"
  using fetch_rates_Inl [of w i date cs "ValueError msg"] by auto


section \<open>The steps of the command server\<close>

lemma py_strip_blank:
  assumes "\<forall>ch\<in>set message. is_space ch"
  shows "py_strip message = []"
proof -
  from assms have blank: "dropWhile is_space message = []"
    by (simp add: dropWhile_eq_Nil_conv)
  show ?thesis unfolding py_strip_def blank by simp
qed

lemma step_tokens:
  "exchange_command_step w message c =
     (case py_split (py_strip message) of
        [] \<Rightarrow> (c, Some IndexError)
      | [first] \<Rightarrow>
          if first = ''exchange''
          then (send c (Text ''Please provide the number of days (1-10) for the exchange rates.''), None)
          else (send c (Text invalid_command), None)
      | [first, token] \<Rightarrow>
          if first = ''exchange'' then try_except w token c
          else (send c (Text invalid_command), None)
      | first # _ # _ # _ \<Rightarrow>
          if first = ''exchange'' then (c, None) else (send c (Text invalid_command), None))"
  by (simp add: exchange_command_step_def Let_def split: list.splits)


text \<open>The loop over one message, and over a message that raises nothing.\<close>

lemma loop_single: "exchange_command [(w, message)] c = exchange_command_step w message c"
  by (simp split: prod.splits option.splits)

lemma loop_next:
  "exchange_command_step w message c = (c', None) \<Longrightarrow>
     exchange_command ((w, message) # later) c = exchange_command later c'"
  by simp

text \<open>
  \<^verbatim>\<open>int\<close> on a literal of digits only, with or without a minus sign: the value when
  the literal has at most 4300 digits, a \<^verbatim>\<open>ValueError\<close> when it has more. Whatever \<^verbatim>\<open>int\<close>
  raises is a \<^verbatim>\<open>ValueError\<close>, which the handler answers.
\<close>

lemma is_digit_plain:
  "is_digit c \<Longrightarrow> \<not> is_int_space c \<and> \<not> is_space c \<and> c \<noteq> CHR ''_'' \<and> c \<noteq> CHR ''-'' \<and> c \<noteq> CHR ''+''"
  by (auto simp: is_digit_def is_int_space_def is_space_def)

lemma int_strip_id:
  assumes "t \<noteq> []" and "\<not> is_int_space (hd t)" and "\<not> is_int_space (last t)"
  shows "rev (dropWhile is_int_space (rev (dropWhile is_int_space t))) = t"
proof -
  have front: "dropWhile is_int_space t = t"
    using assms(2) by (simp add: dropWhile_eq_self_iff)
  have "dropWhile is_int_space (rev t) = rev t"
    using assms(1,3) by (simp add: dropWhile_eq_self_iff hd_rev)
  then show ?thesis by (simp add: front)
qed

lemma scan_digits_all:
  "\<forall>c\<in>set ds. is_digit c \<Longrightarrow> prev \<noteq> CHR ''_'' \<Longrightarrow> scan_digits prev ds"
  by (induction ds arbitrary: prev) (auto dest: is_digit_plain)

lemma valid_digits_all: "ds \<noteq> [] \<Longrightarrow> \<forall>c\<in>set ds. is_digit c \<Longrightarrow> valid_digits ds"
  by (cases ds) (auto simp: valid_digits_def scan_digits_all dest: is_digit_plain)

lemma py_int_digits:
  assumes "ds \<noteq> []" and "\<forall>c\<in>set ds. is_digit c"
  shows "py_int ds =
    (if length ds \<le> int_max_str_digits then Inr (int_of_digits ds)
     else Inl (ValueError ''Exceeds the limit (4300 digits) for integer string conversion''))"
proof -
  from assms have h: "is_digit (hd ds)" and l: "is_digit (last ds)" by auto
  have strip: "rev (dropWhile is_int_space (rev (dropWhile is_int_space ds))) = ds"
    using assms(1) h l by (intro int_strip_id) (auto dest: is_digit_plain)
  have unsigned: "\<not> (case ds of [] \<Rightarrow> False | c # _ \<Rightarrow> c = CHR ''-'' \<or> c = CHR ''+'')"
    and positive: "\<not> (case ds of [] \<Rightarrow> False | c # _ \<Rightarrow> c = CHR ''-'')"
    using assms(1) h by (cases ds; auto dest: is_digit_plain)+
  have all: "filter is_digit ds = ds"
    using assms(2) by simp
  show ?thesis
    unfolding py_int_def strip Let_def
    using unsigned positive valid_digits_all [OF assms] by (simp add: all)
qed

lemma py_int_minus_digits:
  assumes "ds \<noteq> []" and "\<forall>c\<in>set ds. is_digit c" and "length ds \<le> int_max_str_digits"
  shows "py_int (CHR ''-'' # ds) = Inr (- int_of_digits ds)"
proof -
  from assms have l: "is_digit (last ds)" by auto
  have strip: "rev (dropWhile is_int_space (rev (dropWhile is_int_space (CHR ''-'' # ds)))) = CHR ''-'' # ds"
    using assms(1) l by (intro int_strip_id) (auto dest: is_digit_plain simp: is_int_space_def)
  have all: "filter is_digit ds = ds"
    using assms(2) by simp
  show ?thesis
    unfolding py_int_def strip Let_def
    using valid_digits_all [OF assms(1,2)] assms(3) by (simp add: all)
qed

lemma py_int_Inl: "py_int t = Inl e \<Longrightarrow> is_ValueError e"
  by (auto simp: py_int_def Let_def split: if_splits)

lemma step_refused_int:
  assumes "py_split (py_strip message) = [''exchange'', token]" and "py_int token = Inl e"
  shows "exchange_command_step w message c =
    (c\<lparr>sent := sent c @ [Text ''Error: Please provide a valid number of days.'']\<rparr>, None)"
  using assms py_int_Inl [OF assms(2)]
  by (simp add: step_tokens try_except_def try_body_def send_def)

lemma split_acc_replicate:
  "\<not> is_space ch \<Longrightarrow> acc @ replicate n ch \<noteq> [] \<Longrightarrow>
     split_acc acc (replicate n ch) = [acc @ replicate n ch]"
proof (induction n arbitrary: acc)
  case 0
  then show ?case by simp
next
  case (Suc n)
  from Suc.prems(1) have "split_acc acc (replicate (Suc n) ch) = split_acc (acc @ [ch]) (replicate n ch)"
    by simp
  also have "\<dots> = [(acc @ [ch]) @ replicate n ch]"
    using Suc.prems(1) by (intro Suc.IH) auto
  finally show ?case by (simp add: replicate_append_same)
qed

lemma int_of_digits_snoc:
  "is_digit ch \<Longrightarrow> int_of_digits (ds @ [ch]) = 10 * int_of_digits ds + digit_val ch"
  by (simp add: int_of_digits_def)

lemma int_of_ones: "2 \<le> n \<Longrightarrow> 11 \<le> int_of_digits (replicate n (CHR ''1''))"
proof (induction n rule: nat_induct_at_least)
  case base
  show ?case
    by (simp add: int_of_digits_def is_digit_def digit_val_def numeral_2_eq_2)
next
  case (Suc n)
  have d: "is_digit (CHR ''1'')" by (simp add: is_digit_def)
  have "replicate (Suc n) (CHR ''1'') = replicate n (CHR ''1'') @ [CHR ''1'']"
    by (simp add: replicate_append_same)
  then have "int_of_digits (replicate (Suc n) (CHR ''1'')) =
      10 * int_of_digits (replicate n (CHR ''1'')) + digit_val (CHR ''1'')"
    using int_of_digits_snoc [OF d] by simp
  with Suc.IH show ?case by (simp add: digit_val_def)
qed


section \<open>Evaluations on the example worlds\<close>

lemma strftime_739193: "strftime 739193 = ''03.11.2024''"
  by (simp add: strftime_def ord2ymd_def Let_def days_before_month_def days_in_month_def
      pad2_def py_str_def digit_char_def)

lemma strftime_739192: "strftime 739192 = ''02.11.2024''"
  by (simp add: strftime_def ord2ymd_def Let_def days_before_month_def days_in_month_def
      pad2_def py_str_def digit_char_def)

lemma strftime_739191: "strftime 739191 = ''01.11.2024''"
  by (simp add: strftime_def ord2ymd_def Let_def days_before_month_def days_in_month_def
      pad2_def py_str_def digit_char_def)

lemma upt3: "[0..<3] = [0, 1, 2]"
  by (simp add: upt_conv_Cons)

lemma window_world_gap: "window world_gap 3 = [''03.11.2024'', ''02.11.2024'', ''01.11.2024'']"
  by (simp add: window_def world_gap_def epoch_ordinal_def upt3
      strftime_739193 strftime_739192 strftime_739191)

text \<open>
  The clock is read once for each date: when midnight passes in between, a date comes
  twice.
\<close>

lemma window_world_midnight: "window world_midnight 2 = [''03.11.2024'', ''03.11.2024'']"
  by (simp add: window_def world_midnight_def epoch_ordinal_def upt_conv_Cons strftime_739193)

lemma fetch_world_gap:
  "fetch_rates world_gap i date [''EUR'', ''USD''] =
     Inr (if i = 1 then []
          else [(date, [(PStr ''USD'', [(''sale'', PFloat (83 / 2)), (''purchase'', PFloat (409 / 10))])])])"
  by (simp add: fetch_rates_def fetch_body_def world_gap_def ok_response_def parse_response_def
      parse_step_def py_in_def usd_rate_def gbp_rate_def)

lemma rates_world_gap:
  "get_rates_for_days (fetch_rates world_gap) world_gap 3 [''EUR'', ''USD''] =
     Inr [[(''03.11.2024'', [(PStr ''USD'', [(''sale'', PFloat (83 / 2)), (''purchase'', PFloat (409 / 10))])])],
          [(''01.11.2024'', [(PStr ''USD'', [(''sale'', PFloat (83 / 2)), (''purchase'', PFloat (409 / 10))])])]]"
  by (simp add: get_rates_for_days_def window_world_gap fetch_world_gap gather_def failed_def upt3)

lemma fetch_world_bad_json:
  "fetch_rates world_bad_json i date cs = Inl (Lib JSONDecodeError)"
  by (simp add: fetch_rates_def fetch_body_def world_bad_json_def)

lemma rates_world_bad_json:
  "get_rates_for_days (fetch_rates world_bad_json) world_bad_json 1 [''EUR'', ''USD''] =
     Inl (Lib JSONDecodeError)"
  by (simp add: get_rates_for_days_def window_def fetch_world_bad_json gather_def failed_def)

lemma tokens_banana: "py_split (py_strip ''banana'') = [''banana'']"
  by (simp add: py_split_def py_strip_def is_space_def)

lemma tokens_exchange: "py_split (py_strip ''exchange'') = [''exchange'']"
  by (simp add: py_split_def py_strip_def is_space_def)

lemma tokens_exchange_11: "py_split (py_strip ''exchange 11'') = [''exchange'', ''11'']"
  by (simp add: py_split_def py_strip_def is_space_def)

lemma tokens_exchange_1: "py_split (py_strip ''exchange 1'') = [''exchange'', ''1'']"
  by (simp add: py_split_def py_strip_def is_space_def)

lemma tokens_exchange_3: "py_split (py_strip ''exchange 3'') = [''exchange'', ''3'']"
  by (simp add: py_split_def py_strip_def is_space_def)

lemma tokens_exchange_1_2: "py_split (py_strip ''exchange 1 2'') = [''exchange'', ''1'', ''2'']"
  by (simp add: py_split_def py_strip_def is_space_def)

lemma py_int_11: "py_int ''11'' = Inr 11"
  by (simp add: py_int_def is_int_space_def valid_digits_def is_digit_def int_of_digits_def
      digit_val_def int_max_str_digits_def)

lemma py_int_1: "py_int ''1'' = Inr 1"
  by (simp add: py_int_def is_int_space_def valid_digits_def is_digit_def int_of_digits_def
      digit_val_def int_max_str_digits_def)

lemma py_int_3: "py_int ''3'' = Inr 3"
  by (simp add: py_int_def is_int_space_def valid_digits_def is_digit_def int_of_digits_def
      digit_val_def int_max_str_digits_def)

lemma py_str_3: "py_str 3 = ''3''"
  by (simp add: py_str_def digit_char_def)

lemma step_exchange_11:
  "exchange_command_step w ''exchange 11'' c =
     (c\<lparr>sent := sent c @ [Text ''Error: The number of days must be between 1 and 10.'']\<rparr>, None)"
  by (simp add: step_tokens tokens_exchange_11 try_except_def try_body_def py_int_11 send_def)

lemma long_literal_digits: "long_literal \<noteq> [] \<and> (\<forall>c\<in>set long_literal. is_digit c)"
  by (simp add: long_literal_def is_digit_def)

lemma tokens_long_literal:
  "py_split (py_strip (''exchange '' @ long_literal)) = [''exchange'', long_literal]"
proof -
  have sp: "\<not> is_space (CHR ''1'')" by (simp add: is_space_def)
  have e: "\<not> is_space (CHR ''e'')" by (simp add: is_space_def)
  have front: "dropWhile is_space (''exchange '' @ long_literal) = ''exchange '' @ long_literal"
    using e by simp
  have "last (''exchange '' @ long_literal) = CHR ''1''"
    by (simp add: long_literal_def)
  then have rear: "dropWhile is_space (rev (''exchange '' @ long_literal)) = rev (''exchange '' @ long_literal)"
    using sp by (simp only: dropWhile_eq_self_iff hd_rev) simp
  have strip: "py_strip (''exchange '' @ long_literal) = ''exchange '' @ long_literal"
    unfolding py_strip_def front rear by simp
  have "split_acc [] long_literal = [[] @ long_literal]"
    unfolding long_literal_def using sp by (intro split_acc_replicate) auto
  then show ?thesis
    unfolding strip py_split_def by (simp add: is_space_def)
qed

lemma py_int_long_literal:
  "py_int long_literal = Inl (ValueError ''Exceeds the limit (4300 digits) for integer string conversion'')"
  using py_int_digits [of long_literal] long_literal_digits
  by (simp add: int_max_str_digits_def long_literal_def)

lemma int_of_digits_11: "int_of_digits ''11'' = 11"
  by (simp add: int_of_digits_def is_digit_def digit_val_def)

lemma int_of_digits_5: "int_of_digits ''5'' = 5"
  by (simp add: int_of_digits_def is_digit_def digit_val_def)


section \<open>The claims\<close>


subsection \<open>Claim C1\<close>

text \<open>
  Claim C1, as the specification states it: \<^verbatim>\<open>fetch_rates\<close> never lets an exception reach its
  caller, and a malformed JSON body becomes the empty mapping. It does not hold: when the
  body of a response with status 200 is not JSON, \<^verbatim>\<open>response.json()\<close> raises
  \<^verbatim>\<open>json.JSONDecodeError\<close>, which is a \<^verbatim>\<open>ValueError\<close> and no \<^verbatim>\<open>aiohttp.ClientError\<close>, and
  the exception leaves \<^verbatim>\<open>fetch_rates\<close>.
\<close>

theorem fetch_rates_JSONDecodeError:
  "fetch_rates world_bad_json 0 ''03.11.2024'' [''EUR'', ''USD''] = Inl (Lib JSONDecodeError)"
  by (simp add: fetch_rates_def fetch_body_def world_bad_json_def)

text \<open>
  Claim C1, amended: \<^verbatim>\<open>fetch_rates\<close> never lets an \<^verbatim>\<open>aiohttp.ClientError\<close> reach its caller.
  A request that fails with a \<^verbatim>\<open>ClientError\<close>, a response with a status of 400 or more
  (\<^verbatim>\<open>raise_for_status\<close>), and a body whose reading fails with a \<^verbatim>\<open>ClientError\<close> (a content
  type that is not JSON, a broken payload) each give the empty mapping.
\<close>

theorem fetch_rates_ClientError:
  "(fetch_rates w i date cs = Inl e \<longrightarrow> \<not> is_ClientError e) \<and>
   (http w i date = Inl le \<and> is_ClientError (Lib le) \<longrightarrow> fetch_rates w i date cs = Inr []) \<and>
   (http w i date = Inr resp \<and> 400 \<le> status resp \<longrightarrow> fetch_rates w i date cs = Inr []) \<and>
   (http w i date = Inr resp \<and> status resp < 400 \<and> json resp = Inl le \<and> is_ClientError (Lib le)
      \<longrightarrow> fetch_rates w i date cs = Inr [])"
  by (auto simp: fetch_rates_def fetch_body_def split: sum.splits if_splits)

text \<open>
  The amended claim C1 at work: a refused connection, a status 404 and an HTML page each
  give the empty mapping, and the exception that does come out of \<^verbatim>\<open>fetch_rates\<close> for a
  body that is not JSON is no \<^verbatim>\<open>ClientError\<close>.
\<close>

theorem fetch_rates_ClientError_witness:
  "fetch_rates world_refused 0 ''03.11.2024'' [''EUR'', ''USD''] = Inr [] \<and>
   fetch_rates world_404 0 ''03.11.2024'' [''EUR'', ''USD''] = Inr [] \<and>
   fetch_rates world_html 0 ''03.11.2024'' [''EUR'', ''USD''] = Inr [] \<and>
   fetch_rates world_bad_json 0 ''03.11.2024'' [''EUR'', ''USD''] = Inl (Lib JSONDecodeError) \<and>
   \<not> is_ClientError (Lib JSONDecodeError)"
proof -
  have a: "http world_refused 0 ''03.11.2024'' = Inl ClientConnectionError \<and>
      is_ClientError (Lib ClientConnectionError)"
    by (simp add: world_refused_def)
  have b: "http world_404 0 ''03.11.2024'' = Inr \<lparr>status = 404, json = Inl ContentTypeError\<rparr> \<and>
      400 \<le> status \<lparr>status = 404, json = Inl ContentTypeError\<rparr>"
    by (simp add: world_404_def)
  have c: "http world_html 0 ''03.11.2024'' = Inr \<lparr>status = 200, json = Inl ContentTypeError\<rparr> \<and>
      status \<lparr>status = 200, json = Inl ContentTypeError\<rparr> < 400 \<and>
      json \<lparr>status = 200, json = Inl ContentTypeError\<rparr> = Inl ContentTypeError \<and>
      is_ClientError (Lib ContentTypeError)"
    by (simp add: world_html_def)
  have d: "fetch_rates world_bad_json 0 ''03.11.2024'' [''EUR'', ''USD''] = Inl (Lib JSONDecodeError)"
    by (simp add: fetch_rates_def fetch_body_def world_bad_json_def)
  from a b c d
    fetch_rates_ClientError [of world_refused 0 "''03.11.2024''" "[''EUR'', ''USD'']" _ ClientConnectionError]
    fetch_rates_ClientError [of world_404 0 "''03.11.2024''" "[''EUR'', ''USD'']" _ _
      "\<lparr>status = 404, json = Inl ContentTypeError\<rparr>"]
    fetch_rates_ClientError [of world_html 0 "''03.11.2024''" "[''EUR'', ''USD'']" _ ContentTypeError
      "\<lparr>status = 200, json = Inl ContentTypeError\<rparr>"]
    fetch_rates_ClientError [of world_bad_json 0 "''03.11.2024''" "[''EUR'', ''USD'']" "Lib JSONDecodeError"]
  show ?thesis by blast
qed


subsection \<open>Claim C2\<close>

text \<open>
  Claim C2, as the specification states it: the dates of the returned sequence start
  today and go back by exactly one calendar day per step. It does not hold, since empty
  results are dropped: asked for three days on 2024-11-03, with no rates published for
  2024-11-02, the service returns the entries of 03.11.2024 and 01.11.2024, two days
  apart.
\<close>

theorem report_dates_gap:
  "get_rates_for_days (fetch_rates world_gap) world_gap 3 [''EUR'', ''USD''] =
     Inr [[(''03.11.2024'', [(PStr ''USD'', [(''sale'', PFloat (83 / 2)), (''purchase'', PFloat (409 / 10))])])],
          [(''01.11.2024'', [(PStr ''USD'', [(''sale'', PFloat (83 / 2)), (''purchase'', PFloat (409 / 10))])])]] \<and>
   window world_gap 3 = [''03.11.2024'', ''02.11.2024'', ''01.11.2024'']"
  by (simp add: rates_world_gap window_world_gap)

text \<open>
  Claim C2, amended: for \<open>days\<close> from 1 to 10 and any list of currencies, when the clock
  stays on one calendar day \<open>today\<close> while the dates are computed and no fetch raises,
  \<^verbatim>\<open>get_rates_for_days\<close> returns a sequence of at most \<open>days\<close> entries. Each entry is a
  mapping with one date; the dates are those of strictly increasing offsets below
  \<open>days\<close> back from today, hence strictly descending within the window
  \<open>today, today - 1, \<dots>, today - (days - 1)\<close>, by one day or more per step, and the first
  one need not be today. Every currency key of an entry belongs to the requested list.
\<close>

theorem report_dates_in_window:
  assumes "1 \<le> days" and "days \<le> 10"
    and clock: "\<forall>i<nat days. now_day w i = today"
    and ok: "\<forall>i<nat days.
      \<not> isl (fetch_rates w i (strftime (epoch_ordinal + int today - int i)) cs)"
  shows "\<exists>report offs.
      get_rates_for_days (fetch_rates w) w days cs = Inr report \<and>
      length report \<le> nat days \<and> length offs = length report \<and>
      sorted_wrt (<) offs \<and> set offs \<subseteq> {..<nat days} \<and>
      concat (map (map fst) report) = map (\<lambda>i. strftime (epoch_ordinal + int today - int i)) offs \<and>
      (\<forall>d\<in>set report. \<exists>date rates. d = [(date, rates)] \<and> fst ` set rates \<subseteq> PStr ` set cs)"
proof -
  define f where "f = (\<lambda>i. fetch_rates w i (window w days ! i) cs)"
  have win: "window w days ! i = strftime (epoch_ordinal + int today - int i)" if "i < nat days" for i
    using that clock by (simp add: window_nth)
  have returns: "\<forall>i<nat days. \<not> isl (f i)"
    using ok win by (simp add: f_def)
  from get_rates_for_days_returns [of days "fetch_rates w" w cs, OF assms(1,2) returns [unfolded f_def]]
  obtain report where rep: "get_rates_for_days (fetch_rates w) w days cs = Inr report" ..
  define offs where "offs = filter (\<lambda>i. f i \<noteq> Inr []) [0..<nat days]"
  have m: "map Inr report = map f offs"
    using report_offsets [OF rep] by (simp add: offs_def f_def)
  have len: "length offs = length report"
    using map_eq_imp_length_eq [OF m] by simp
  have le: "length report \<le> nat days"
    unfolding len [symmetric] offs_def using length_filter_le [of _ "[0..<nat days]"] by simp
  have sorted: "sorted_wrt (<) offs"
    unfolding offs_def by (simp add: sorted_wrt_filter)
  have sub: "set offs \<subseteq> {..<nat days}"
    unfolding offs_def by auto
  have entry: "\<exists>rates. f i = Inr [(window w days ! i, rates)] \<and> fst ` set rates \<subseteq> PStr ` set cs"
    if "i \<in> set offs" for i
  proof -
    from that have i: "i < nat days" and ne: "f i \<noteq> Inr []" by (auto simp: offs_def)
    from returns i obtain d where d: "f i = Inr d" by (cases "f i") auto
    with ne have "d \<noteq> []" by simp
    with fetch_rates_shape [OF d [unfolded f_def]]
    obtain rates where rates: "d = [(window w days ! i, rates)]" by auto
    have "fst ` set rates \<subseteq> PStr ` set cs"
    proof
      fix k assume "k \<in> fst ` set rates"
      then obtain q where "(k, q) \<in> set rates" by auto
      from fetch_rates_keys [OF d [unfolded f_def], of "window w days ! i" rates k q] rates this
      show "k \<in> PStr ` set cs" by auto
    qed
    with d rates show ?thesis by auto
  qed
  have report: "report = map (\<lambda>i. projr (f i)) offs"
    using arg_cong [where f = "map projr", OF m] by (simp add: comp_def)
  have "concat (map (map fst) report) = map (\<lambda>i. window w days ! i) offs"
    unfolding report map_map
  proof (rule concat_singletons)
    show "\<forall>i\<in>set offs. (map fst \<circ> (\<lambda>i. projr (f i))) i = [window w days ! i]"
      using entry by fastforce
  qed
  also have "\<dots> = map (\<lambda>i. strftime (epoch_ordinal + int today - int i)) offs"
    using sub win by (intro map_cong [OF refl]) auto
  finally have dates: "concat (map (map fst) report) =
      map (\<lambda>i. strftime (epoch_ordinal + int today - int i)) offs" .
  have keys: "\<forall>d\<in>set report. \<exists>date rates. d = [(date, rates)] \<and> fst ` set rates \<subseteq> PStr ` set cs"
    unfolding report using entry by fastforce
  from rep le len sorted sub dates keys show ?thesis by blast
qed

text \<open>
  The amended claim C2 on the example above: three days on 2024-11-03.
\<close>

theorem report_dates_in_window_witness:
  "(1::int) \<le> 3 \<and> (3::int) \<le> 10 \<and>
   now_day world_gap 0 = 20030 \<and> now_day world_gap 1 = 20030 \<and> now_day world_gap 2 = 20030 \<and>
   (\<exists>report offs.
      get_rates_for_days (fetch_rates world_gap) world_gap 3 [''EUR'', ''USD''] = Inr report \<and>
      length report \<le> nat 3 \<and> length offs = length report \<and>
      sorted_wrt (<) offs \<and> set offs \<subseteq> {..<nat 3} \<and>
      concat (map (map fst) report) = map (\<lambda>i. strftime (epoch_ordinal + int 20030 - int i)) offs \<and>
      (\<forall>d\<in>set report. \<exists>date rates. d = [(date, rates)] \<and>
         fst ` set rates \<subseteq> PStr ` set [''EUR'', ''USD'']))"
proof -
  have a: "(1::int) \<le> 3" and b: "(3::int) \<le> 10" by simp_all
  have c: "\<forall>i<nat 3. now_day world_gap i = 20030"
    by (simp add: world_gap_def)
  have d: "\<forall>i<nat 3. \<not> isl (fetch_rates world_gap i (strftime (epoch_ordinal + int 20030 - int i))
       [''EUR'', ''USD''])"
    by (simp add: fetch_world_gap)
  have e: "now_day world_gap 0 = 20030 \<and> now_day world_gap 1 = 20030 \<and> now_day world_gap 2 = 20030"
    by (simp add: world_gap_def)
  from a b e report_dates_in_window [OF a b c d] show ?thesis by blast
qed

subsection \<open>Claim C3\<close>

text \<open>
  Claim C3: \<^verbatim>\<open>get_rates_for_days\<close> raises its validation error,
  \<^verbatim>\<open>ValueError("Number of days must be between 1 and 10")\<close>, exactly when \<open>days\<close> is below 1
  or above 10, whatever the currencies are. Nothing else is validated: for \<open>days\<close> from 1
  to 10 an exception that leaves the call is one that a fetch has raised, and when no
  fetch raises the call returns a report.
\<close>

theorem get_rates_for_days_validation:
  "((get_rates_for_days (fetch_rates w) w days cs =
       Inl (ValueError ''Number of days must be between 1 and 10'')) = (days < 1 \<or> 10 < days)) \<and>
   (1 \<le> days \<and> days \<le> 10 \<and> get_rates_for_days (fetch_rates w) w days cs = Inl e \<longrightarrow>
      (\<exists>i<nat days. fetch_rates w i (window w days ! i) cs = Inl e)) \<and>
   (1 \<le> days \<and> days \<le> 10 \<and> (\<forall>i<nat days. \<not> isl (fetch_rates w i (window w days ! i) cs)) \<longrightarrow>
      (\<exists>report. get_rates_for_days (fetch_rates w) w days cs = Inr report))"
proof (intro conjI impI)
  show "(get_rates_for_days (fetch_rates w) w days cs =
       Inl (ValueError ''Number of days must be between 1 and 10'')) = (days < 1 \<or> 10 < days)"
  proof
    assume "get_rates_for_days (fetch_rates w) w days cs =
       Inl (ValueError ''Number of days must be between 1 and 10'')"
    from get_rates_for_days_Inl [OF this] show "days < 1 \<or> 10 < days"
      by (auto simp: fetch_rates_not_ValueError)
  next
    assume "days < 1 \<or> 10 < days"
    then show "get_rates_for_days (fetch_rates w) w days cs =
       Inl (ValueError ''Number of days must be between 1 and 10'')"
      by (auto simp: get_rates_for_days_def)
  qed
next
  assume "1 \<le> days \<and> days \<le> 10 \<and> get_rates_for_days (fetch_rates w) w days cs = Inl e"
  then show "\<exists>i<nat days. fetch_rates w i (window w days ! i) cs = Inl e"
    using get_rates_for_days_Inl [of "fetch_rates w" w days cs e] by auto
next
  assume "1 \<le> days \<and> days \<le> 10 \<and> (\<forall>i<nat days. \<not> isl (fetch_rates w i (window w days ! i) cs))"
  then show "\<exists>report. get_rates_for_days (fetch_rates w) w days cs = Inr report"
    using get_rates_for_days_returns [of days "fetch_rates w" w cs] by auto
qed

text \<open>
  Claim C3 at the boundaries: 0 and 11 raise the validation error, 1 and 10 do not and
  return a report; and a request for one day whose fetch raises passes that exception on.
\<close>

theorem get_rates_for_days_validation_witness:
  "get_rates_for_days (fetch_rates world_gap) world_gap 0 [''EUR'', ''USD''] =
     Inl (ValueError ''Number of days must be between 1 and 10'') \<and>
   get_rates_for_days (fetch_rates world_gap) world_gap 11 [''EUR'', ''USD''] =
     Inl (ValueError ''Number of days must be between 1 and 10'') \<and>
   get_rates_for_days (fetch_rates world_gap) world_gap 1 [''EUR'', ''USD''] \<noteq>
     Inl (ValueError ''Number of days must be between 1 and 10'') \<and>
   get_rates_for_days (fetch_rates world_gap) world_gap 10 [''EUR'', ''USD''] \<noteq>
     Inl (ValueError ''Number of days must be between 1 and 10'') \<and>
   (\<exists>report. get_rates_for_days (fetch_rates world_gap) world_gap 1 [''EUR'', ''USD''] = Inr report) \<and>
   (\<exists>report. get_rates_for_days (fetch_rates world_gap) world_gap 10 [''EUR'', ''USD''] = Inr report) \<and>
   (\<exists>i<nat 1. fetch_rates world_bad_json i (window world_bad_json 1 ! i) [''EUR'', ''USD''] =
      Inl (Lib JSONDecodeError))"
proof -
  have c0: "get_rates_for_days (fetch_rates world_gap) world_gap 0 [''EUR'', ''USD''] =
     Inl (ValueError ''Number of days must be between 1 and 10'')"
    using get_rates_for_days_validation [of world_gap 0 "[''EUR'', ''USD'']", THEN conjunct1]
    by simp
  have c11: "get_rates_for_days (fetch_rates world_gap) world_gap 11 [''EUR'', ''USD''] =
     Inl (ValueError ''Number of days must be between 1 and 10'')"
    using get_rates_for_days_validation [of world_gap 11 "[''EUR'', ''USD'']", THEN conjunct1]
    by simp
  have c1: "get_rates_for_days (fetch_rates world_gap) world_gap 1 [''EUR'', ''USD''] \<noteq>
     Inl (ValueError ''Number of days must be between 1 and 10'')"
    using get_rates_for_days_validation [of world_gap 1 "[''EUR'', ''USD'']", THEN conjunct1]
    by simp
  have c10: "get_rates_for_days (fetch_rates world_gap) world_gap 10 [''EUR'', ''USD''] \<noteq>
     Inl (ValueError ''Number of days must be between 1 and 10'')"
    using get_rates_for_days_validation [of world_gap 10 "[''EUR'', ''USD'']", THEN conjunct1]
    by simp
  have r1: "\<exists>report. get_rates_for_days (fetch_rates world_gap) world_gap 1 [''EUR'', ''USD''] = Inr report"
    using get_rates_for_days_validation [of world_gap 1 "[''EUR'', ''USD'']",
        THEN conjunct2, THEN conjunct2]
    by (simp add: fetch_world_gap)
  have r10: "\<exists>report. get_rates_for_days (fetch_rates world_gap) world_gap 10 [''EUR'', ''USD''] = Inr report"
    using get_rates_for_days_validation [of world_gap 10 "[''EUR'', ''USD'']",
        THEN conjunct2, THEN conjunct2]
    by (simp add: fetch_world_gap)
  have e: "\<exists>i<nat 1. fetch_rates world_bad_json i (window world_bad_json 1 ! i) [''EUR'', ''USD''] =
      Inl (Lib JSONDecodeError)"
    using get_rates_for_days_validation [of world_bad_json 1 "[''EUR'', ''USD'']" "Lib JSONDecodeError",
        THEN conjunct2, THEN conjunct1]
    by (simp add: rates_world_bad_json)
  from c0 c11 c1 c10 r1 r10 e show ?thesis by (intro conjI)
qed


subsection \<open>Claim C4\<close>

text \<open>
  Claim C4 says that every text message is answered by exactly one reply, and that
  \<^verbatim>\<open>exchange\<close> followed by two or more further tokens is answered with
  \<^verbatim>\<open>Error: Please provide a valid number of days.\<close> The handler has a branch for one
  token and a branch for two tokens and none for more: for the message
  \<^verbatim>\<open>exchange 1 2\<close> it sends nothing, logs nothing, and goes on to the next message.
\<close>

theorem three_tokens_no_reply:
  "exchange_command_step w ''exchange 1 2'' c = (c, None) \<and>
   exchange_command [(w, ''exchange 1 2'')] c = (c, None)"
  by (simp add: step_tokens tokens_exchange_1_2)


subsection \<open>Claim C5\<close>

text \<open>
  Claim C5, as the specification states it: \<^verbatim>\<open>exchange N\<close> with an integer \<open>N\<close> outside 1
  to 10 is answered with \<^verbatim>\<open>Error: The number of days must be between 1 and 10.\<close> It
  does not hold for every integer: \<^verbatim>\<open>int\<close> refuses a literal of more than 4300 digits
  with a \<^verbatim>\<open>ValueError\<close>, and the handler answers the number of 4301 ones with
  \<^verbatim>\<open>Error: Please provide a valid number of days.\<close>
\<close>

theorem long_literal_refused:
  "exchange_command_step world_gap (''exchange '' @ long_literal) conn0 =
     (conn0\<lparr>sent := sent conn0 @ [Text ''Error: Please provide a valid number of days.'']\<rparr>, None) \<and>
   long_literal = replicate 4301 (CHR ''1'') \<and>
   10 < int_of_digits long_literal"
proof -
  have "11 \<le> int_of_digits long_literal"
    unfolding long_literal_def by (rule int_of_ones) simp
  then show ?thesis
    using step_refused_int [OF tokens_long_literal py_int_long_literal, of world_gap conn0]
    by (simp add: long_literal_def)
qed

text \<open>
  Claim C5, amended: a message whose first token is not \<^verbatim>\<open>exchange\<close> is answered with
  \<^verbatim>\<open>Invalid command. Use 'exchange <days>' to get rates.\<close>; the single token
  \<^verbatim>\<open>exchange\<close> with \<^verbatim>\<open>Please provide the number of days (1-10) for the exchange rates.\<close>;
  \<^verbatim>\<open>exchange N\<close>, where \<^verbatim>\<open>int\<close> accepts the token as an integer outside 1 to 10, with
  \<^verbatim>\<open>Error: The number of days must be between 1 and 10.\<close> \<^verbatim>\<open>int\<close> accepts every literal
  of at most 4300 digits, with or without a minus sign; a literal of more digits is
  answered with \<^verbatim>\<open>Error: Please provide a valid number of days.\<close> In each of the three
  cases that one reply is all the handler does: the loop over this message alone ends
  with the reply sent and no exception, and the loop over this message and a next one
  handles the next one from there.
\<close>

theorem invalid_input_replies:
  "(py_split (py_strip message) = first # rest \<and> first \<noteq> ''exchange'' \<longrightarrow>
      exchange_command_step w message c = (c\<lparr>sent := sent c @ [Text invalid_command]\<rparr>, None) \<and>
      exchange_command [(w, message)] c = (c\<lparr>sent := sent c @ [Text invalid_command]\<rparr>, None) \<and>
      exchange_command [(w, message), (w', message')] c =
        exchange_command_step w' message' (c\<lparr>sent := sent c @ [Text invalid_command]\<rparr>)) \<and>
   (py_split (py_strip message) = [''exchange''] \<longrightarrow>
      exchange_command_step w message c =
        (c\<lparr>sent := sent c @
           [Text ''Please provide the number of days (1-10) for the exchange rates.'']\<rparr>, None) \<and>
      exchange_command [(w, message)] c =
        (c\<lparr>sent := sent c @
           [Text ''Please provide the number of days (1-10) for the exchange rates.'']\<rparr>, None) \<and>
      exchange_command [(w, message), (w', message')] c =
        exchange_command_step w' message'
          (c\<lparr>sent := sent c @
             [Text ''Please provide the number of days (1-10) for the exchange rates.'']\<rparr>)) \<and>
   (py_split (py_strip message) = [''exchange'', token] \<and> py_int token = Inr n \<and> (n < 1 \<or> 10 < n) \<longrightarrow>
      exchange_command_step w message c =
        (c\<lparr>sent := sent c @ [Text ''Error: The number of days must be between 1 and 10.'']\<rparr>, None) \<and>
      exchange_command [(w, message)] c =
        (c\<lparr>sent := sent c @ [Text ''Error: The number of days must be between 1 and 10.'']\<rparr>, None) \<and>
      exchange_command [(w, message), (w', message')] c =
        exchange_command_step w' message'
          (c\<lparr>sent := sent c @ [Text ''Error: The number of days must be between 1 and 10.'']\<rparr>)) \<and>
   (ds \<noteq> [] \<and> (\<forall>ch\<in>set ds. is_digit ch) \<and> length ds \<le> 4300 \<longrightarrow>
      py_int ds = Inr (int_of_digits ds) \<and> py_int (CHR ''-'' # ds) = Inr (- int_of_digits ds)) \<and>
   (py_split (py_strip message) = [''exchange'', ds] \<and> (\<forall>ch\<in>set ds. is_digit ch) \<and> 4300 < length ds \<longrightarrow>
      exchange_command_step w message c =
        (c\<lparr>sent := sent c @ [Text ''Error: Please provide a valid number of days.'']\<rparr>, None)) \<and>
   (exchange_command_step w message c = (c', None) \<longrightarrow>
      exchange_command ((w, message) # later) c = exchange_command later c')"
proof (intro conjI impI)
  assume a: "py_split (py_strip message) = first # rest \<and> first \<noteq> ''exchange''"
  then show s: "exchange_command_step w message c = (c\<lparr>sent := sent c @ [Text invalid_command]\<rparr>, None)"
    by (auto simp: step_tokens send_def split: list.splits)
  then show "exchange_command [(w, message)] c = (c\<lparr>sent := sent c @ [Text invalid_command]\<rparr>, None)"
    by (simp add: loop_single)
  from s show "exchange_command [(w, message), (w', message')] c =
        exchange_command_step w' message' (c\<lparr>sent := sent c @ [Text invalid_command]\<rparr>)"
    by (simp only: loop_next loop_single)
next
  assume a: "py_split (py_strip message) = [''exchange'']"
  then show s: "exchange_command_step w message c =
        (c\<lparr>sent := sent c @
           [Text ''Please provide the number of days (1-10) for the exchange rates.'']\<rparr>, None)"
    by (simp add: step_tokens send_def)
  then show "exchange_command [(w, message)] c =
        (c\<lparr>sent := sent c @
           [Text ''Please provide the number of days (1-10) for the exchange rates.'']\<rparr>, None)"
    by (simp add: loop_single)
  from s show "exchange_command [(w, message), (w', message')] c =
        exchange_command_step w' message'
          (c\<lparr>sent := sent c @
             [Text ''Please provide the number of days (1-10) for the exchange rates.'']\<rparr>)"
    by (simp only: loop_next loop_single)
next
  assume a: "py_split (py_strip message) = [''exchange'', token] \<and> py_int token = Inr n \<and> (n < 1 \<or> 10 < n)"
  then show s: "exchange_command_step w message c =
        (c\<lparr>sent := sent c @ [Text ''Error: The number of days must be between 1 and 10.'']\<rparr>, None)"
    by (auto simp: step_tokens try_except_def try_body_def send_def)
  then show "exchange_command [(w, message)] c =
        (c\<lparr>sent := sent c @ [Text ''Error: The number of days must be between 1 and 10.'']\<rparr>, None)"
    by (simp add: loop_single)
  from s show "exchange_command [(w, message), (w', message')] c =
        exchange_command_step w' message'
          (c\<lparr>sent := sent c @ [Text ''Error: The number of days must be between 1 and 10.'']\<rparr>)"
    by (simp only: loop_next loop_single)
next
  assume a: "ds \<noteq> [] \<and> (\<forall>ch\<in>set ds. is_digit ch) \<and> length ds \<le> 4300"
  then show "py_int ds = Inr (int_of_digits ds)"
    using py_int_digits [of ds] by (simp add: int_max_str_digits_def)
  from a show "py_int (CHR ''-'' # ds) = Inr (- int_of_digits ds)"
    using py_int_minus_digits [of ds] by (simp add: int_max_str_digits_def)
next
  assume a: "py_split (py_strip message) = [''exchange'', ds] \<and> (\<forall>ch\<in>set ds. is_digit ch) \<and> 4300 < length ds"
  then have "ds \<noteq> []" by auto
  with a have "py_int ds = Inl (ValueError ''Exceeds the limit (4300 digits) for integer string conversion'')"
    using py_int_digits [of ds] by (simp add: int_max_str_digits_def)
  with a show "exchange_command_step w message c =
        (c\<lparr>sent := sent c @ [Text ''Error: Please provide a valid number of days.'']\<rparr>, None)"
    using step_refused_int [of message ds _ w c] by simp
next
  assume "exchange_command_step w message c = (c', None)"
  then show "exchange_command ((w, message) # later) c = exchange_command later c'"
    by (rule loop_next)
qed

text \<open>
  The amended claim C5 on the messages \<^verbatim>\<open>banana\<close>, \<^verbatim>\<open>exchange\<close> and \<^verbatim>\<open>exchange 11\<close>, one
  after the other on a fresh connection, on the literals \<^verbatim>\<open>11\<close> and \<^verbatim>\<open>-5\<close>, and on the
  literal of 4301 digits.
\<close>

theorem invalid_input_replies_witness:
  "exchange_command_step world_gap ''banana'' conn0 = (\<lparr>sent = [Text invalid_command], audit_log = []\<rparr>, None) \<and>
   exchange_command_step world_gap ''exchange'' conn0 =
     (\<lparr>sent = [Text ''Please provide the number of days (1-10) for the exchange rates.''],
       audit_log = []\<rparr>, None) \<and>
   exchange_command_step world_gap ''exchange 11'' conn0 =
     (\<lparr>sent = [Text ''Error: The number of days must be between 1 and 10.''], audit_log = []\<rparr>, None) \<and>
   exchange_command [(world_gap, ''banana''), (world_gap, ''exchange'')] conn0 =
     (\<lparr>sent = [Text invalid_command,
               Text ''Please provide the number of days (1-10) for the exchange rates.''],
       audit_log = []\<rparr>, None) \<and>
   exchange_command [(world_gap, ''exchange''), (world_gap, ''exchange 11'')] conn0 =
     (\<lparr>sent = [Text ''Please provide the number of days (1-10) for the exchange rates.'',
               Text ''Error: The number of days must be between 1 and 10.''],
       audit_log = []\<rparr>, None) \<and>
   exchange_command [(world_gap, ''exchange 11''), (world_gap, ''banana'')] conn0 =
     (\<lparr>sent = [Text ''Error: The number of days must be between 1 and 10.'', Text invalid_command],
       audit_log = []\<rparr>, None) \<and>
   py_int ''11'' = Inr 11 \<and> py_int ''-5'' = Inr (- 5) \<and>
   exchange_command_step world_gap (''exchange '' @ long_literal) conn0 =
     (\<lparr>sent = [Text ''Error: Please provide a valid number of days.''], audit_log = []\<rparr>, None)"
proof -
  let ?prompt = "''Please provide the number of days (1-10) for the exchange rates.''"
  let ?range = "''Error: The number of days must be between 1 and 10.''"
  have banana: "py_split (py_strip ''banana'') = ''banana'' # [] \<and> ''banana'' \<noteq> ''exchange''"
    by (simp add: tokens_banana)
  have eleven: "py_split (py_strip ''exchange 11'') = [''exchange'', ''11''] \<and> py_int ''11'' = Inr 11 \<and>
      ((11::int) < 1 \<or> (10::int) < 11)"
    by (simp add: tokens_exchange_11 py_int_11)
  have s1: "exchange_command_step world_gap ''banana'' c = (c\<lparr>sent := sent c @ [Text invalid_command]\<rparr>, None)"
    and l1: "exchange_command [(world_gap, ''banana''), (world_gap, ''exchange'')] c =
      exchange_command_step world_gap ''exchange'' (c\<lparr>sent := sent c @ [Text invalid_command]\<rparr>)"
    for c
    using invalid_input_replies [of "''banana''" "''banana''" "[]" world_gap c world_gap "''exchange''",
        THEN conjunct1] banana
    by blast+
  have s2: "exchange_command_step world_gap ''exchange'' c = (c\<lparr>sent := sent c @ [Text ?prompt]\<rparr>, None)"
    and l2: "exchange_command [(world_gap, ''exchange''), (world_gap, ''exchange 11'')] c =
      exchange_command_step world_gap ''exchange 11'' (c\<lparr>sent := sent c @ [Text ?prompt]\<rparr>)"
    for c
    using invalid_input_replies [of "''exchange''" _ _ world_gap c world_gap "''exchange 11''",
        THEN conjunct2, THEN conjunct1] tokens_exchange
    by blast+
  have s3: "exchange_command_step world_gap ''exchange 11'' c = (c\<lparr>sent := sent c @ [Text ?range]\<rparr>, None)"
    and l3: "exchange_command [(world_gap, ''exchange 11''), (world_gap, ''banana'')] c =
      exchange_command_step world_gap ''banana'' (c\<lparr>sent := sent c @ [Text ?range]\<rparr>)"
    for c
    using invalid_input_replies [of "''exchange 11''" _ _ world_gap c world_gap "''banana''" "''11''" 11,
        THEN conjunct2, THEN conjunct2, THEN conjunct1] eleven
    by blast+
  have digits: "''11'' \<noteq> [] \<and> (\<forall>ch\<in>set ''11''. is_digit ch) \<and> length ''11'' \<le> 4300"
    "''5'' \<noteq> [] \<and> (\<forall>ch\<in>set ''5''. is_digit ch) \<and> length ''5'' \<le> 4300"
    by (simp_all add: is_digit_def)
  have i1: "py_int ''11'' = Inr 11"
    using invalid_input_replies [of _ _ _ _ _ _ _ _ _ "''11''",
        THEN conjunct2, THEN conjunct2, THEN conjunct2, THEN conjunct1] digits(1)
    by (simp add: int_of_digits_11)
  have i2: "py_int ''-5'' = Inr (- 5)"
    using invalid_input_replies [of _ _ _ _ _ _ _ _ _ "''5''",
        THEN conjunct2, THEN conjunct2, THEN conjunct2, THEN conjunct1] digits(2)
    by (simp add: int_of_digits_5)
  have long: "py_split (py_strip (''exchange '' @ long_literal)) = [''exchange'', long_literal] \<and>
      (\<forall>ch\<in>set long_literal. is_digit ch) \<and> 4300 < length long_literal"
    using tokens_long_literal long_literal_digits by (simp add: long_literal_def)
  have s4: "exchange_command_step world_gap (''exchange '' @ long_literal) conn0 =
      (conn0\<lparr>sent := sent conn0 @ [Text ''Error: Please provide a valid number of days.'']\<rparr>, None)"
    using invalid_input_replies [of "''exchange '' @ long_literal" _ _ world_gap conn0 _ _ _ _ long_literal,
        THEN conjunct2, THEN conjunct2, THEN conjunct2, THEN conjunct2, THEN conjunct1] long
    by blast
  from s4 show ?thesis
    by (simp add: s1 s2 s3 l1 l2 l3 i1 i2 conn0_def)
qed

subsection \<open>Claim C6\<close>

text \<open>
  Claim C6: a command \<^verbatim>\<open>exchange N\<close> that is carried out, \<open>N\<close> an integer from 1 to 10
  for which \<^verbatim>\<open>get_rates_for_days\<close> returns, is answered with the report as JSON and
  appends the one line \<^verbatim>\<open><timestamp> - exchange <N> days command executed\<close> to the audit
  log. A message answered with any other text leaves the audit log as it was, and the
  audit log changes for no other message.
\<close>

theorem audit_log_lines:
  "(py_split (py_strip message) = [''exchange'', token] \<and> py_int token = Inr n \<and> 1 \<le> n \<and> n \<le> 10 \<and>
    get_rates_for_days (fetch_rates w) w n [''EUR'', ''USD''] = Inr rates \<longrightarrow>
      exchange_command_step w message c =
        (c\<lparr>sent := sent c @ [Json_dumps rates],
            audit_log := audit_log c @
              [timestamp w @ '' - exchange '' @ py_str n @ '' days command executed'' @ [CHR 0x0A]]\<rparr>,
         None)) \<and>
   (sent (fst (exchange_command_step w message c)) = sent c @ [Text reply] \<longrightarrow>
      audit_log (fst (exchange_command_step w message c)) = audit_log c) \<and>
   (audit_log (fst (exchange_command_step w message c)) \<noteq> audit_log c \<longrightarrow>
      (\<exists>token' n' rates'. py_split (py_strip message) = [''exchange'', token'] \<and>
         py_int token' = Inr n' \<and> 1 \<le> n' \<and> n' \<le> 10 \<and>
         get_rates_for_days (fetch_rates w) w n' [''EUR'', ''USD''] = Inr rates' \<and>
         sent (fst (exchange_command_step w message c)) = sent c @ [Json_dumps rates'] \<and>
         audit_log (fst (exchange_command_step w message c)) =
           audit_log c @
             [timestamp w @ '' - exchange '' @ py_str n' @ '' days command executed'' @ [CHR 0x0A]]))"
proof (intro conjI impI)
  assume "py_split (py_strip message) = [''exchange'', token] \<and> py_int token = Inr n \<and> 1 \<le> n \<and> n \<le> 10 \<and>
    get_rates_for_days (fetch_rates w) w n [''EUR'', ''USD''] = Inr rates"
  then show "exchange_command_step w message c =
        (c\<lparr>sent := sent c @ [Json_dumps rates],
            audit_log := audit_log c @
              [timestamp w @ '' - exchange '' @ py_str n @ '' days command executed'' @ [CHR 0x0A]]\<rparr>,
         None)"
    by (simp add: step_tokens try_except_def try_body_def send_def write_log_def)
next
  assume "sent (fst (exchange_command_step w message c)) = sent c @ [Text reply]"
  then show "audit_log (fst (exchange_command_step w message c)) = audit_log c"
    by (auto simp: step_tokens try_except_def try_body_def send_def write_log_def
        split: list.splits if_splits sum.splits)
next
  assume "audit_log (fst (exchange_command_step w message c)) \<noteq> audit_log c"
  then show "\<exists>token' n' rates'. py_split (py_strip message) = [''exchange'', token'] \<and>
         py_int token' = Inr n' \<and> 1 \<le> n' \<and> n' \<le> 10 \<and>
         get_rates_for_days (fetch_rates w) w n' [''EUR'', ''USD''] = Inr rates' \<and>
         sent (fst (exchange_command_step w message c)) = sent c @ [Json_dumps rates'] \<and>
         audit_log (fst (exchange_command_step w message c)) =
           audit_log c @
             [timestamp w @ '' - exchange '' @ py_str n' @ '' days command executed'' @ [CHR 0x0A]]"
    by (auto simp: step_tokens try_except_def try_body_def send_def write_log_def
        split: list.splits if_splits sum.splits)
qed

text \<open>
  Claim C6 on \<^verbatim>\<open>exchange 3\<close>, which appends one line, and on \<^verbatim>\<open>exchange 11\<close>, which appends
  none.
\<close>

theorem audit_log_lines_witness:
  "exchange_command_step world_gap ''exchange 3'' conn0 =
     (conn0\<lparr>sent := sent conn0 @
        [Json_dumps
          [[(''03.11.2024'', [(PStr ''USD'', [(''sale'', PFloat (83 / 2)), (''purchase'', PFloat (409 / 10))])])],
           [(''01.11.2024'', [(PStr ''USD'', [(''sale'', PFloat (83 / 2)), (''purchase'', PFloat (409 / 10))])])]]],
        audit_log := audit_log conn0 @
          [timestamp world_gap @ '' - exchange '' @ py_str 3 @ '' days command executed'' @ [CHR 0x0A]]\<rparr>,
      None) \<and>
   audit_log (fst (exchange_command_step world_gap ''exchange 11'' conn0)) = audit_log conn0 \<and>
   audit_log (fst (exchange_command_step world_gap ''exchange 3'' conn0)) =
     [''2024-11-03 12:00:00.250000 - exchange 3 days command executed'' @ [CHR 0x0A]]"
proof -
  have a: "py_split (py_strip ''exchange 3'') = [''exchange'', ''3''] \<and> py_int ''3'' = Inr 3 \<and>
      (1::int) \<le> 3 \<and> (3::int) \<le> 10 \<and>
      get_rates_for_days (fetch_rates world_gap) world_gap 3 [''EUR'', ''USD''] =
        Inr [[(''03.11.2024'', [(PStr ''USD'', [(''sale'', PFloat (83 / 2)), (''purchase'', PFloat (409 / 10))])])],
             [(''01.11.2024'', [(PStr ''USD'', [(''sale'', PFloat (83 / 2)), (''purchase'', PFloat (409 / 10))])])]]"
    by (simp add: tokens_exchange_3 py_int_3 rates_world_gap)
  have s3: "exchange_command_step world_gap ''exchange 3'' conn0 =
     (conn0\<lparr>sent := sent conn0 @
        [Json_dumps
          [[(''03.11.2024'', [(PStr ''USD'', [(''sale'', PFloat (83 / 2)), (''purchase'', PFloat (409 / 10))])])],
           [(''01.11.2024'', [(PStr ''USD'', [(''sale'', PFloat (83 / 2)), (''purchase'', PFloat (409 / 10))])])]]],
        audit_log := audit_log conn0 @
          [timestamp world_gap @ '' - exchange '' @ py_str 3 @ '' days command executed'' @ [CHR 0x0A]]\<rparr>,
      None)"
    using audit_log_lines [of "''exchange 3''" "''3''" 3 world_gap _ conn0, THEN conjunct1] a
    by blast
  have b: "sent (fst (exchange_command_step world_gap ''exchange 11'' conn0)) =
      sent conn0 @ [Text ''Error: The number of days must be between 1 and 10.'']"
    by (simp add: step_exchange_11)
  have s11: "audit_log (fst (exchange_command_step world_gap ''exchange 11'' conn0)) = audit_log conn0"
    using audit_log_lines [of "''exchange 11''" _ _ world_gap _ conn0
        "''Error: The number of days must be between 1 and 10.''", THEN conjunct2, THEN conjunct1] b
    by blast
  have c: "audit_log (fst (exchange_command_step world_gap ''exchange 3'' conn0)) \<noteq> audit_log conn0"
    by (simp add: s3)
  have "\<exists>token' n' rates'. py_split (py_strip ''exchange 3'') = [''exchange'', token'] \<and>
         py_int token' = Inr n' \<and> 1 \<le> n' \<and> n' \<le> 10 \<and>
         get_rates_for_days (fetch_rates world_gap) world_gap n' [''EUR'', ''USD''] = Inr rates' \<and>
         sent (fst (exchange_command_step world_gap ''exchange 3'' conn0)) = sent conn0 @ [Json_dumps rates'] \<and>
         audit_log (fst (exchange_command_step world_gap ''exchange 3'' conn0)) =
           audit_log conn0 @
             [timestamp world_gap @ '' - exchange '' @ py_str n' @ '' days command executed'' @ [CHR 0x0A]]"
    using audit_log_lines [of "''exchange 3''" _ _ world_gap _ conn0, THEN conjunct2, THEN conjunct2] c
    by blast
  then have l3: "audit_log (fst (exchange_command_step world_gap ''exchange 3'' conn0)) =
     [''2024-11-03 12:00:00.250000 - exchange 3 days command executed'' @ [CHR 0x0A]]"
    by (auto simp: tokens_exchange_3 py_int_3 py_str_3 conn0_def world_gap_def)
  from s3 s11 l3 show ?thesis by (intro conjI)
qed


subsection \<open>Claim C7\<close>

text \<open>
  Claim C7, as the specification states it: a missing \<^verbatim>\<open>saleRate\<close> leaves the quote without
  the field. It does not hold: the quote is built with \<^verbatim>\<open>rate.get("saleRate")\<close>, so the key
  \<^verbatim>\<open>sale\<close> is there and holds \<^verbatim>\<open>None\<close>.
\<close>

theorem parse_response_missing_sale:
  "parse_response data_no_sale ''03.11.2024'' [''EUR'', ''USD''] =
     Inr [(''03.11.2024'', [(PStr ''USD'', [(''sale'', PNone), (''purchase'', PFloat (409 / 10))])])] \<and>
   map_of [(''sale'', PNone), (''purchase'', PFloat (409 / 10))] ''sale'' = Some PNone"
  by (simp add: parse_response_def data_no_sale_def usd_rate_no_sale_def parse_step_def py_in_def)

text \<open>
  Claim C7, amended: for an element of the \<^verbatim>\<open>exchangeRate\<close> array whose currency is
  requested, the quote has both keys, \<^verbatim>\<open>sale\<close> and \<^verbatim>\<open>purchase\<close>, in this order; each
  holds the value of \<^verbatim>\<open>saleRate\<close> or \<^verbatim>\<open>purchaseRate\<close> when the element has the field and
  \<^verbatim>\<open>None\<close> (JSON \<^verbatim>\<open>null\<close>) when it has not, never zero. Every quote of a parsed response
  is the quote of such an element.
\<close>

theorem parse_response_quote:
  "(map_of kvs ''currency'' = Some (PStr c) \<and> c \<in> set cs \<longrightarrow>
      parse_step cs rates (PDict kvs) =
        Inr (AList.update (PStr c)
          [(''sale'', case map_of kvs ''saleRate'' of None \<Rightarrow> PNone | Some v \<Rightarrow> v),
           (''purchase'', case map_of kvs ''purchaseRate'' of None \<Rightarrow> PNone | Some v \<Rightarrow> v)] rates)) \<and>
   (parse_response data date cs = Inr d \<and> (date', rates') \<in> set d \<and> (k, q) \<in> set rates' \<longrightarrow>
      (\<exists>v items kvs' c'. py_get data ''exchangeRate'' (PList []) = Inr v \<and> py_iter v = Inr items \<and>
         PDict kvs' \<in> set items \<and> map_of kvs' ''currency'' = Some (PStr c') \<and> c' \<in> set cs \<and>
         k = PStr c' \<and>
         q = [(''sale'', case map_of kvs' ''saleRate'' of None \<Rightarrow> PNone | Some v \<Rightarrow> v),
              (''purchase'', case map_of kvs' ''purchaseRate'' of None \<Rightarrow> PNone | Some v \<Rightarrow> v)]))"
proof (intro conjI impI)
  assume "map_of kvs ''currency'' = Some (PStr c) \<and> c \<in> set cs"
  then show "parse_step cs rates (PDict kvs) =
        Inr (AList.update (PStr c)
          [(''sale'', case map_of kvs ''saleRate'' of None \<Rightarrow> PNone | Some v \<Rightarrow> v),
           (''purchase'', case map_of kvs ''purchaseRate'' of None \<Rightarrow> PNone | Some v \<Rightarrow> v)] rates)"
    by (simp add: parse_step_def py_in_def)
next
  assume a: "parse_response data date cs = Inr d \<and> (date', rates') \<in> set d \<and> (k, q) \<in> set rates'"
  then obtain v items rs where v: "py_get data ''exchangeRate'' (PList []) = Inr v"
    and items: "py_iter v = Inr items" and loop: "parse_loop cs items [] = Inr rs"
    and d: "d = (if rs \<noteq> [] then [(date, rs)] else [])"
    by (auto simp: parse_response_def split: sum.splits)
  from a d have "(k, q) \<in> set rs" by (auto split: if_splits)
  from parse_loop_Inr [OF loop this] v items
  show "\<exists>v items kvs' c'. py_get data ''exchangeRate'' (PList []) = Inr v \<and> py_iter v = Inr items \<and>
         PDict kvs' \<in> set items \<and> map_of kvs' ''currency'' = Some (PStr c') \<and> c' \<in> set cs \<and>
         k = PStr c' \<and>
         q = [(''sale'', case map_of kvs' ''saleRate'' of None \<Rightarrow> PNone | Some v \<Rightarrow> v),
              (''purchase'', case map_of kvs' ''purchaseRate'' of None \<Rightarrow> PNone | Some v \<Rightarrow> v)]"
    by auto
qed

text \<open>
  The amended claim C7 on the response whose dollar element has no \<^verbatim>\<open>saleRate\<close>.
\<close>

theorem parse_response_quote_witness:
  "parse_step [''EUR'', ''USD''] [] usd_rate_no_sale =
     Inr [(PStr ''USD'', [(''sale'', PNone), (''purchase'', PFloat (409 / 10))])] \<and>
   (\<exists>kvs. PDict kvs \<in> set [usd_rate_no_sale] \<and> map_of kvs ''currency'' = Some (PStr ''USD'') \<and>
      [(''sale'', PNone), (''purchase'', PFloat (409 / 10))] =
        [(''sale'', case map_of kvs ''saleRate'' of None \<Rightarrow> PNone | Some v \<Rightarrow> v),
         (''purchase'', case map_of kvs ''purchaseRate'' of None \<Rightarrow> PNone | Some v \<Rightarrow> v)])"
proof -
  have a: "map_of [(''baseCurrency'', PStr ''UAH''), (''currency'', PStr ''USD''),
        (''purchaseRate'', PFloat (409 / 10))] ''currency'' = Some (PStr ''USD'') \<and>
      ''USD'' \<in> set [''EUR'', ''USD'']"
    by simp
  have b: "parse_response data_no_sale ''03.11.2024'' [''EUR'', ''USD''] =
      Inr [(''03.11.2024'', [(PStr ''USD'', [(''sale'', PNone), (''purchase'', PFloat (409 / 10))])])] \<and>
    (''03.11.2024'', [(PStr ''USD'', [(''sale'', PNone), (''purchase'', PFloat (409 / 10))])])
      \<in> set [(''03.11.2024'', [(PStr ''USD'', [(''sale'', PNone), (''purchase'', PFloat (409 / 10))])])] \<and>
    (PStr ''USD'', [(''sale'', PNone), (''purchase'', PFloat (409 / 10))])
      \<in> set [(PStr ''USD'', [(''sale'', PNone), (''purchase'', PFloat (409 / 10))])]"
    by (simp add: parse_response_def data_no_sale_def usd_rate_no_sale_def parse_step_def py_in_def)
  have c: "py_get data_no_sale ''exchangeRate'' (PList []) = Inr (PList [usd_rate_no_sale])"
    by (simp add: data_no_sale_def)
  from a b c
    parse_response_quote [of "[(''baseCurrency'', PStr ''UAH''), (''currency'', PStr ''USD''),
        (''purchaseRate'', PFloat (409 / 10))]" "''USD''" "[''EUR'', ''USD'']" "[]"
      data_no_sale "''03.11.2024''"
      "[(''03.11.2024'', [(PStr ''USD'', [(''sale'', PNone), (''purchase'', PFloat (409 / 10))])])]"
      "''03.11.2024''" "[(PStr ''USD'', [(''sale'', PNone), (''purchase'', PFloat (409 / 10))])]"
      "PStr ''USD''" "[(''sale'', PNone), (''purchase'', PFloat (409 / 10))]"]
  show ?thesis
    by (auto simp: usd_rate_no_sale_def)
qed


subsection \<open>Claim C8\<close>



subsection \<open>Claim C9\<close>

text \<open>
  Claim C9: for a message that is empty or consists of whitespace only, the list of
  tokens is empty and \<^verbatim>\<open>command[0]\<close> raises \<^verbatim>\<open>IndexError\<close>. Nothing is sent and nothing is
  logged; the exception ends the loop, so the messages that follow are not handled.
\<close>

theorem blank_message_IndexError:
  assumes "\<forall>ch\<in>set message. is_space ch"
  shows "py_split (py_strip message) = [] \<and>
    exchange_command_step w message c = (c, Some IndexError) \<and>
    exchange_command ((w, message) # later) c = (c, Some IndexError)"
proof -
  have "py_split (py_strip message) = []"
    using py_strip_blank [OF assms] by (simp add: py_split_def)
  then show ?thesis by (simp add: step_tokens)
qed

text \<open>
  Claim C9 on a message of two blanks and on the empty message.
\<close>

theorem blank_message_IndexError_witness:
  "is_space (CHR '' '') \<and>
   py_split (py_strip ''  '') = [] \<and>
   exchange_command_step world_gap ''  '' conn0 = (conn0, Some IndexError) \<and>
   exchange_command [(world_gap, ''  ''), (world_gap, ''exchange'')] conn0 = (conn0, Some IndexError) \<and>
   exchange_command_step world_gap [] conn0 = (conn0, Some IndexError)"
proof -
  have s: "is_space (CHR '' '')"
    by (simp add: is_space_def)
  then have a: "\<forall>ch\<in>set ''  ''. is_space ch"
    by simp
  have b: "\<forall>ch\<in>set []. is_space ch"
    by simp
  from s blank_message_IndexError [OF a, of world_gap conn0 "[(world_gap, ''exchange'')]"]
    blank_message_IndexError [OF b, of world_gap conn0 "[]"]
  show ?thesis by simp
qed

subsection \<open>Claim C10\<close>

text \<open>
  Claim C10: the handler of \<^verbatim>\<open>ValueError\<close> encloses the fetching as well. When the token
  is an integer from 1 to 10 and \<^verbatim>\<open>get_rates_for_days\<close> raises a \<^verbatim>\<open>ValueError\<close>, such as the
  \<^verbatim>\<open>json.JSONDecodeError\<close> of a fetch, the reply is
  \<^verbatim>\<open>Error: Please provide a valid number of days.\<close> and nothing is appended to the audit
  log.
\<close>

theorem ValueError_handler_covers_fetch:
  assumes "py_split (py_strip message) = [''exchange'', token]"
    and "py_int token = Inr n" and "1 \<le> n" and "n \<le> 10"
    and "get_rates_for_days (fetch_rates w) w n [''EUR'', ''USD''] = Inl e"
    and "is_ValueError e"
  shows "exchange_command_step w message c =
      (c\<lparr>sent := sent c @ [Text ''Error: Please provide a valid number of days.'']\<rparr>, None) \<and>
    audit_log (fst (exchange_command_step w message c)) = audit_log c"
  using assms by (simp add: step_tokens try_except_def try_body_def send_def)

text \<open>
  Claim C10 on \<^verbatim>\<open>exchange 1\<close> when the body of the response is not JSON.
\<close>

theorem ValueError_handler_covers_fetch_witness:
  "py_split (py_strip ''exchange 1'') = [''exchange'', ''1''] \<and> py_int ''1'' = Inr 1 \<and>
   get_rates_for_days (fetch_rates world_bad_json) world_bad_json 1 [''EUR'', ''USD''] =
     Inl (Lib JSONDecodeError) \<and>
   is_ValueError (Lib JSONDecodeError) \<and>
   exchange_command_step world_bad_json ''exchange 1'' conn0 =
     (conn0\<lparr>sent := sent conn0 @ [Text ''Error: Please provide a valid number of days.'']\<rparr>, None) \<and>
   audit_log (fst (exchange_command_step world_bad_json ''exchange 1'' conn0)) = audit_log conn0"
proof -
  have a: "py_split (py_strip ''exchange 1'') = [''exchange'', ''1'']"
    by (rule tokens_exchange_1)
  have b: "py_int ''1'' = Inr 1"
    by (rule py_int_1)
  have c: "(1::int) \<le> 1" and d: "(1::int) \<le> 10"
    by simp_all
  have e: "get_rates_for_days (fetch_rates world_bad_json) world_bad_json 1 [''EUR'', ''USD''] =
     Inl (Lib JSONDecodeError)"
    by (rule rates_world_bad_json)
  have f: "is_ValueError (Lib JSONDecodeError)"
    by simp
  from a b e f ValueError_handler_covers_fetch [OF a b c d e f, of conn0]
  show ?thesis by (intro conjI) simp_all
qed

end
